theory Spec2Isabelle
  imports Complex_Main
begin

section \<open>Noise synthesis (toneGenerator.js)\<close>

text \<open>
  Samples are modelled as real numbers: the arithmetic of \<^verbatim>\<open>createWhiteNoise\<close> and
  \<^verbatim>\<open>createPinkNoise\<close> is taken exactly, without the rounding of IEEE doubles and of
  the \<^verbatim>\<open>Float32Array\<close> the samples are stored in. \<^verbatim>\<open>Math.random()\<close> is an input: the
  function \<open>random\<close> gives the value of the \<open>k\<close>-th call made by one generation call
  (counted from 0). \<^verbatim>\<open>audioContext.sampleRate\<close> is an input as well, a natural number.
\<close>

text \<open>
  \<^verbatim>\<open>for (let i = 0; i < bufferSize; i++) { output[i] = Math.random() * 2 - 1; }\<close>
\<close>

function white_loop :: "(nat \<Rightarrow> real) \<Rightarrow> nat \<Rightarrow> nat \<Rightarrow> real list \<Rightarrow> real list" where
  "white_loop random bufferSize i output =
     (if i < bufferSize
      then white_loop random bufferSize (Suc i) (output[i := random i * 2 - 1])
      else output)"
  by pat_completeness auto
termination
  by (relation "measure (\<lambda>(random, bufferSize, i, output). bufferSize - i)") auto

declare white_loop.simps [simp del]

text \<open>
  The channel data of the buffer \<^verbatim>\<open>createWhiteNoise\<close> builds:
  \<^verbatim>\<open>createBuffer(1, bufferSize, sampleRate)\<close> gives \<open>bufferSize\<close> zeros, the loop fills them.
\<close>

definition whiteNoiseBuffer :: "nat \<Rightarrow> (nat \<Rightarrow> real) \<Rightarrow> real list" where
  "whiteNoiseBuffer sampleRate random =
     (let bufferSize = 2 * sampleRate;
          output = replicate bufferSize 0
      in white_loop random bufferSize 0 output)"

text \<open>
  The loop of \<^verbatim>\<open>createPinkNoise\<close>, with the filter state \<open>b0 .. b5\<close> as it is threaded
  through the iterations (\<^verbatim>\<open>b6\<close> is declared and zeroed by the source, and never read):
  \<^verbatim>\<open>
  const white = Math.random() * 2 - 1;
  b0 = 0.99886 * b0 + white * 0.0555179;
  b1 = 0.99332 * b1 + white * 0.0750759;
  b2 = 0.96900 * b2 + white * 0.1538520;
  b3 = 0.86650 * b3 + white * 0.3104856;
  b4 = 0.55000 * b4 + white * 0.5329522;
  b5 = -0.7616 * b5 - white * 0.0168980;
  output[i] = b0 + b1 + b2 + b3 + b4 + b5 + white * 0.5362;
  output[i] *= 0.11;
  \<close>
\<close>

function pink_loop ::
  "(nat \<Rightarrow> real) \<Rightarrow> nat \<Rightarrow> nat \<Rightarrow> real \<Rightarrow> real \<Rightarrow> real \<Rightarrow> real \<Rightarrow> real \<Rightarrow> real
     \<Rightarrow> real list \<Rightarrow> real list" where
  "pink_loop random bufferSize i b0 b1 b2 b3 b4 b5 output =
     (if i < bufferSize
      then
        (let white = random i * 2 - 1;
             b0' = 0.99886 * b0 + white * 0.0555179;
             b1' = 0.99332 * b1 + white * 0.0750759;
             b2' = 0.96900 * b2 + white * 0.1538520;
             b3' = 0.86650 * b3 + white * 0.3104856;
             b4' = 0.55000 * b4 + white * 0.5329522;
             b5' = - 0.7616 * b5 - white * 0.0168980;
             output' = output[i := b0' + b1' + b2' + b3' + b4' + b5' + white * 0.5362];
             output'' = (if i < length output' then output'[i := output' ! i * 0.11] else output')
         in pink_loop random bufferSize (Suc i) b0' b1' b2' b3' b4' b5' output'')
      else output)"
  by pat_completeness auto
termination
  by (relation "measure (\<lambda>(random, bufferSize, i, b0, b1, b2, b3, b4, b5, output). bufferSize - i)")
    auto

declare pink_loop.simps [simp del]

definition pinkNoiseBuffer :: "nat \<Rightarrow> (nat \<Rightarrow> real) \<Rightarrow> real list" where
  "pinkNoiseBuffer sampleRate random =
     (let bufferSize = 2 * sampleRate;
          output = replicate bufferSize 0
      in pink_loop random bufferSize 0 0 0 0 0 0 0 output)"

subsection \<open>The colouring filter as the specification words it\<close>

text \<open>
  Six poles, each a pair of a feedback coefficient and an input gain, applied to six
  running state variables; the sample is the sum of the six states and of the white
  sample weighted by 0.5362, scaled by 0.11.
\<close>

definition kellet_poles :: "(real \<times> real) list" where
  "kellet_poles =
     [(0.99886, 0.0555179), (0.99332, 0.0750759), (0.96900, 0.1538520),
      (0.86650, 0.3104856), (0.55000, 0.5329522), (- 0.7616, - 0.0168980)]"

definition kellet_step :: "real \<Rightarrow> real list \<Rightarrow> real list" where
  "kellet_step white bs = map2 (\<lambda>(p, g) b. p * b + white * g) kellet_poles bs"

primrec kellet_run :: "real list \<Rightarrow> real list \<Rightarrow> real list" where
  "kellet_run bs [] = []"
| "kellet_run bs (white # whites) =
     (let bs' = kellet_step white bs
      in (sum_list bs' + white * 0.5362) * 0.11 # kellet_run bs' whites)"

definition white_samples :: "(nat \<Rightarrow> real) \<Rightarrow> nat \<Rightarrow> real list" where
  "white_samples random n = map (\<lambda>i. random i * 2 - 1) [0..<n]"

definition pink_spec :: "nat \<Rightarrow> (nat \<Rightarrow> real) \<Rightarrow> real list" where
  "pink_spec sampleRate random =
     kellet_run (replicate 6 0) (white_samples random (2 * sampleRate))"

section \<open>The audio graph and its host\<close>

text \<open>
  The Web Audio and DOM objects the modules share are one record, \<open>world\<close>: the state of
  \<^verbatim>\<open>audioContext\<close>, the shared \<^verbatim>\<open>analyser\<close>, every producer node created so far (a node is
  named by its index), the \<^verbatim>\<open>audio-player\<close> element, the frame callbacks the host holds,
  and the module variables \<^verbatim>\<open>source\<close> (toneGenerator.js), \<^verbatim>\<open>mp3Source\<close>,
  \<^verbatim>\<open>mediaElementSourceCreated\<close> (mp3Handler.js), \<^verbatim>\<open>currentVisualizerAnimation\<close> and
  \<^verbatim>\<open>visualizerType\<close> (visualizer.js). The field \<open>trace\<close> records, in order, the calls made
  to the host, the entries of the helper functions and what is reported by
  \<^verbatim>\<open>console.error\<close>, \<^verbatim>\<open>console.warn\<close> and \<^verbatim>\<open>alert\<close>.

  What the host decides is the record \<open>host\<close>, an input of every operation: the checked
  radio buttons, the sample rate and the random draws, and for each kind of host call
  whether it throws (or rejects) during this operation, and what \<^verbatim>\<open>audioPlayer.src\<close> reads
  once it was set to the empty string (\<open>emptySrcReads\<close>: a browser resolves the attribute
  against the address of the page and reads that address, which is not empty). A browser
  that refuses \<^verbatim>\<open>createMediaElementSource\<close> on an element it has wrapped before is a host
  with \<open>createThrows\<close> at that call. A call that throws changes nothing but the trace. An \<^verbatim>\<open>await\<close> is taken as a plain call: nothing else runs in between.
  \<^verbatim>\<open>console.log\<close>, \<^verbatim>\<open>URL.revokeObjectURL\<close> and the painting of the canvas are left out.
\<close>

datatype ctx_state = Suspended | Running | Closed

datatype jsnum = NaN | PosInf | NegInf | Finite real

text \<open>
  The errors: an exception of a host call (named by the call), and the four
  \<^verbatim>\<open>new Error(...)\<close> of utils.js and toneGenerator.js, told apart by their messages
  (\<open>message\<close> below).
\<close>

datatype error =
    HostError string
  | AudioContextNotResumed
  | AnalyserInvalidOrClosed
  | InvalidFrequency
  | SelectionMissing

datatype callee = EnsureAudioContextActive | EnsureAnalyserOutput | StopTone | Visualize

datatype strategy = Bar | Kaleidoscope | KaleidoscopeB

datatype event =
    Enter callee
  | Resume
  | ConnectDestination
  | CreateOscillator
  | CreateBuffer
  | CreateMediaElementSource
  | Connect nat
  | Disconnect nat
  | Start nat
  | Stop nat
  | Play
  | Pause
  | RequestFrame nat
  | CancelFrame nat
  | Render strategy
  | ClearRect
  | ConsoleError string error
  | ConsoleText string
  | Alert string

datatype node_kind =
    Oscillator string jsnum
  | BufferSource "real list" bool
  | MediaElementSource

datatype play_state = Unstarted | Started | Stopped

record node =
  kind :: node_kind
  toAnalyser :: bool
  playState :: play_state

record analyser_node =
  fftSize :: nat
  toDestination :: bool

record world =
  ctxState :: ctx_state
  analyser :: "analyser_node option"
  nodes :: "node list"
  source :: "nat option"
  mp3Source :: "nat option"
  mediaElementSourceCreated :: bool
  playerSrc :: string
  playerPlaying :: bool
  playerCurrentTime :: nat
  currentVisualizerAnimation :: "nat option"
  visualizerType :: string
  frames :: "(nat \<times> strategy) list"
  frameCounter :: nat
  trace :: "event list"

record host =
  resumeRejects :: bool
  connectDestinationThrows :: bool
  waveformInput :: "string option"
  noiseTypeInput :: "string option"
  ctxSampleRate :: nat
  mathRandom :: "nat \<Rightarrow> real"
  createThrows :: bool
  connectThrows :: bool
  startThrows :: bool
  stopThrows :: bool
  disconnectThrows :: bool
  playRejects :: bool
  renderThrows :: bool
  emptySrcReads :: string

text \<open>
  An operation ends by returning or by throwing; either way the world it leaves is part
  of the outcome, since what was mutated before a \<^verbatim>\<open>throw\<close> stays mutated.
\<close>

datatype outcome = Returned world | Threw error world

definition and_then :: "outcome \<Rightarrow> (world \<Rightarrow> outcome) \<Rightarrow> outcome" where
  "and_then r k = (case r of Returned w \<Rightarrow> k w | Threw e w \<Rightarrow> Threw e w)"

definition try_catch :: "outcome \<Rightarrow> (error \<Rightarrow> world \<Rightarrow> outcome) \<Rightarrow> outcome" where
  "try_catch r handler = (case r of Returned w \<Rightarrow> Returned w | Threw e w \<Rightarrow> handler e w)"

definition try_finally :: "outcome \<Rightarrow> (world \<Rightarrow> world) \<Rightarrow> outcome" where
  "try_finally r f = (case r of Returned w \<Rightarrow> Returned (f w) | Threw e w \<Rightarrow> Threw e (f w))"

definition message :: "error \<Rightarrow> string" where
  "message e =
     (case e of
        HostError m \<Rightarrow> m
      | AudioContextNotResumed \<Rightarrow> ''AudioContext could not be resumed.''
      | AnalyserInvalidOrClosed \<Rightarrow> ''Analyser node is invalid or closed.''
      | InvalidFrequency \<Rightarrow> ''Invalid frequency value. Must be a number greater than 0.''
      | SelectionMissing \<Rightarrow>
          ''Waveform or noise type selection is missing. Please check the UI.'')"

definition emit :: "event \<Rightarrow> world \<Rightarrow> world" where
  "emit e w = w\<lparr>trace := trace w @ [e]\<rparr>"

definition console_error :: "string \<Rightarrow> error \<Rightarrow> world \<Rightarrow> world" where
  "console_error label e w = emit (ConsoleError label e) w"

definition alert :: "string \<Rightarrow> world \<Rightarrow> world" where
  "alert text w = emit (Alert text) w"

subsection \<open>audioContext.js\<close>

text \<open>
  The module creates the context and the analyser, sets \<^verbatim>\<open>fftSize = 2048\<close> and connects
  the analyser to the destination. The state the context starts in is the host's choice.
\<close>

definition initial_world :: "ctx_state \<Rightarrow> world" where
  "initial_world st =
     \<lparr>ctxState = st,
      analyser = Some \<lparr>fftSize = 2048, toDestination = True\<rparr>,
      nodes = [],
      source = None,
      mp3Source = None,
      mediaElementSourceCreated = False,
      playerSrc = [],
      playerPlaying = False,
      playerCurrentTime = 0,
      currentVisualizerAnimation = None,
      visualizerType = ''bar'',
      frames = [],
      frameCounter = 0,
      trace = []\<rparr>"

subsection \<open>Host calls\<close>

definition ctx_resume :: "host \<Rightarrow> world \<Rightarrow> outcome" where
  "ctx_resume h w =
     (let w = emit Resume w
      in if resumeRejects h then Threw (HostError ''resume'') w
         else Returned (w\<lparr>ctxState := Running\<rparr>))"

definition analyser_connect_destination :: "host \<Rightarrow> world \<Rightarrow> outcome" where
  "analyser_connect_destination h w =
     (let w = emit ConnectDestination w
      in if connectDestinationThrows h then Threw (HostError ''connect'') w
         else Returned (w\<lparr>analyser := map_option (\<lambda>a. a\<lparr>toDestination := True\<rparr>) (analyser w)\<rparr>))"

definition upd_node :: "nat \<Rightarrow> (node \<Rightarrow> node) \<Rightarrow> world \<Rightarrow> world" where
  "upd_node n f w =
     (if n < length (nodes w) then w\<lparr>nodes := (nodes w)[n := f (nodes w ! n)]\<rparr> else w)"

text \<open>
  A node-creating call; the node it returns is named \<open>length (nodes w)\<close>, the length
  before the call.
\<close>

definition create_node :: "host \<Rightarrow> event \<Rightarrow> node_kind \<Rightarrow> world \<Rightarrow> outcome" where
  "create_node h call k w =
     (let w = emit call w
      in if createThrows h then Threw (HostError ''create'') w
         else Returned
           (w\<lparr>nodes := nodes w @ [\<lparr>kind = k, toAnalyser = False, playState = Unstarted\<rparr>]\<rparr>))"

definition node_connect :: "host \<Rightarrow> nat \<Rightarrow> world \<Rightarrow> outcome" where
  "node_connect h n w =
     (let w = emit (Connect n) w
      in if connectThrows h then Threw (HostError ''connect'') w
         else Returned (upd_node n (\<lambda>x. x\<lparr>toAnalyser := True\<rparr>) w))"

definition node_disconnect :: "host \<Rightarrow> nat \<Rightarrow> world \<Rightarrow> outcome" where
  "node_disconnect h n w =
     (let w = emit (Disconnect n) w
      in if disconnectThrows h then Threw (HostError ''disconnect'') w
         else Returned (upd_node n (\<lambda>x. x\<lparr>toAnalyser := False\<rparr>) w))"

definition node_start :: "host \<Rightarrow> nat \<Rightarrow> world \<Rightarrow> outcome" where
  "node_start h n w =
     (let w = emit (Start n) w
      in if startThrows h then Threw (HostError ''start'') w
         else Returned (upd_node n (\<lambda>x. x\<lparr>playState := Started\<rparr>) w))"

definition node_stop :: "host \<Rightarrow> nat \<Rightarrow> world \<Rightarrow> outcome" where
  "node_stop h n w =
     (let w = emit (Stop n) w
      in if stopThrows h then Threw (HostError ''stop'') w
         else Returned (upd_node n (\<lambda>x. x\<lparr>playState := Stopped\<rparr>) w))"

definition player_play :: "host \<Rightarrow> world \<Rightarrow> outcome" where
  "player_play h w =
     (let w = emit Play w
      in if playRejects h then Threw (HostError ''play'') w
         else Returned (w\<lparr>playerPlaying := True\<rparr>))"

definition player_pause :: "world \<Rightarrow> world" where
  "player_pause w = (emit Pause w)\<lparr>playerPlaying := False\<rparr>"

text \<open>
  \<^verbatim>\<open>requestAnimationFrame\<close> hands out the handles 1, 2, ...; the handle it returns is
  \<open>frameCounter\<close> of the world it leaves. \<^verbatim>\<open>cancelAnimationFrame\<close> drops the callback of
  that handle, if the host still holds it.
\<close>

definition requestAnimationFrame :: "strategy \<Rightarrow> world \<Rightarrow> world" where
  "requestAnimationFrame d w =
     (let n = Suc (frameCounter w)
      in emit (RequestFrame n) (w\<lparr>frameCounter := n, frames := frames w @ [(n, d)]\<rparr>))"

definition cancelAnimationFrame :: "nat \<Rightarrow> world \<Rightarrow> world" where
  "cancelAnimationFrame n w =
     emit (CancelFrame n) (w\<lparr>frames := filter (\<lambda>p. fst p \<noteq> n) (frames w)\<rparr>)"

definition render :: "strategy \<Rightarrow> host \<Rightarrow> world \<Rightarrow> outcome" where
  "render d h w =
     (let w = emit (Render d) w
      in if renderThrows h then Threw (HostError ''render'') w else Returned w)"

text \<open>JavaScript's truthiness of a handle that is \<^verbatim>\<open>null\<close> or a number.\<close>

definition truthy :: "nat option \<Rightarrow> bool" where
  "truthy v = (case v of None \<Rightarrow> False | Some n \<Rightarrow> 0 < n)"

definition handle_of :: "nat option \<Rightarrow> nat" where
  "handle_of v = (case v of None \<Rightarrow> 0 | Some n \<Rightarrow> n)"

text \<open>\<^verbatim>\<open>isNaN(freq)\<close> and \<^verbatim>\<open>freq <= 0\<close> on the value \<^verbatim>\<open>parseFloat\<close> returned.\<close>

definition isNaN :: "jsnum \<Rightarrow> bool" where
  "isNaN x = (case x of NaN \<Rightarrow> True | _ \<Rightarrow> False)"

definition le_zero :: "jsnum \<Rightarrow> bool" where
  "le_zero x = (case x of NaN \<Rightarrow> False | PosInf \<Rightarrow> False | NegInf \<Rightarrow> True | Finite r \<Rightarrow> r \<le> 0)"

subsection \<open>utils.js\<close>

definition ensureAudioContextActive :: "host \<Rightarrow> world \<Rightarrow> outcome" where
  "ensureAudioContextActive h w =
     try_catch
       (let w = emit (Enter EnsureAudioContextActive) w
        in if ctxState w = Suspended then ctx_resume h w else Returned w)
       (\<lambda>error w.
          Threw AudioContextNotResumed
            (alert ''Audio playback is blocked. Please interact with the page to enable sound.''
               (console_error ''Failed to resume AudioContext:'' error w)))"

definition ensureAnalyserOutput :: "host \<Rightarrow> world \<Rightarrow> outcome" where
  "ensureAnalyserOutput h w =
     try_catch
       (let w = emit (Enter EnsureAnalyserOutput) w
        in if analyser w = None \<or> ctxState w = Closed then Threw AnalyserInvalidOrClosed w
           else analyser_connect_destination h w)
       (\<lambda>error w.
          Returned
            (alert (''Error connecting analyser to output: '' @ message error)
               (console_error ''Error ensuring analyser output:'' error w)))"

subsection \<open>visualizer.js\<close>

text \<open>
  \<^verbatim>\<open>drawBarGraph\<close>, \<^verbatim>\<open>drawKaleidoscope\<close> and \<^verbatim>\<open>drawKaleidoscopeB\<close> differ in what they
  paint and in the wording of their messages only. \<open>draw\<close> is one frame of such a loop,
  the body of their inner function \<^verbatim>\<open>draw\<close>; \<open>start_loop\<close> is the outer function.
\<close>

definition strategy_label :: "strategy \<Rightarrow> string" where
  "strategy_label d =
     (case d of
        Bar \<Rightarrow> ''bar graph''
      | Kaleidoscope \<Rightarrow> ''kaleidoscope''
      | KaleidoscopeB \<Rightarrow> ''kaleidoscope B'')"

definition draw :: "strategy \<Rightarrow> host \<Rightarrow> world \<Rightarrow> outcome" where
  "draw d h w =
     try_catch
       (let w = requestAnimationFrame d w;
            w = w\<lparr>currentVisualizerAnimation := Some (frameCounter w)\<rparr>
        in render d h w)
       (\<lambda>drawError w.
          Returned
            (cancelAnimationFrame (handle_of (currentVisualizerAnimation w))
               (console_error (''Error in '' @ strategy_label d @ '' animation frame:'')
                  drawError w)))"

definition start_loop :: "strategy \<Rightarrow> string \<Rightarrow> host \<Rightarrow> world \<Rightarrow> outcome" where
  "start_loop d name h w =
     (if analyser w = None then Returned (emit (ConsoleText (''No analyser provided to '' @ name)) w)
      else try_catch (draw d h w)
             (\<lambda>error w.
                Returned
                  (console_error (''Error setting up '' @ strategy_label d @ '' visualization:'')
                     error w)))"

definition drawBarGraph :: "host \<Rightarrow> world \<Rightarrow> outcome" where
  "drawBarGraph = start_loop Bar ''drawBarGraph''"

definition drawKaleidoscope :: "host \<Rightarrow> world \<Rightarrow> outcome" where
  "drawKaleidoscope = start_loop Kaleidoscope ''drawKaleidoscope''"

definition drawKaleidoscopeB :: "host \<Rightarrow> world \<Rightarrow> outcome" where
  "drawKaleidoscopeB = start_loop KaleidoscopeB ''drawKaleidoscopeB''"

definition visualize :: "host \<Rightarrow> world \<Rightarrow> outcome" where
  "visualize h w =
     try_catch
       (let w = emit (Enter Visualize) w;
            w = (if truthy (currentVisualizerAnimation w)
                 then cancelAnimationFrame (handle_of (currentVisualizerAnimation w)) w
                 else w)
        in if visualizerType w = ''bar'' then drawBarGraph h w
           else if visualizerType w = ''kaleidoscope'' then drawKaleidoscope h w
           else if visualizerType w = ''kaleidoscope-b'' then drawKaleidoscopeB h w
           else Returned (emit ClearRect w))
       (\<lambda>error w. Returned (console_error ''Error in visualize:'' error w))"

text \<open>
  The host fires the callback scheduled under handle \<open>n\<close>, if it still holds one: the
  callback leaves the host's list and one frame of its loop runs.
\<close>

definition run_frame :: "host \<Rightarrow> nat \<Rightarrow> world \<Rightarrow> outcome" where
  "run_frame h n w =
     (case map_of (frames w) n of
        None \<Rightarrow> Returned w
      | Some d \<Rightarrow> draw d h (w\<lparr>frames := filter (\<lambda>p. fst p \<noteq> n) (frames w)\<rparr>))"

text \<open>The \<^verbatim>\<open>change\<close> listener of the visualizer select box.\<close>

definition select_visualizer :: "string \<Rightarrow> world \<Rightarrow> world" where
  "select_visualizer v w = w\<lparr>visualizerType := v\<rparr>"

subsection \<open>toneGenerator.js\<close>

definition createWhiteNoise :: "host \<Rightarrow> world \<Rightarrow> outcome" where
  "createWhiteNoise h w =
     create_node h CreateBuffer (BufferSource (whiteNoiseBuffer (ctxSampleRate h) (mathRandom h)) True) w"

definition createPinkNoise :: "host \<Rightarrow> world \<Rightarrow> outcome" where
  "createPinkNoise h w =
     create_node h CreateBuffer (BufferSource (pinkNoiseBuffer (ctxSampleRate h) (mathRandom h)) True) w"

definition stopTone :: "host \<Rightarrow> world \<Rightarrow> outcome" where
  "stopTone h w =
     (let w = emit (Enter StopTone) w
      in case source w of
           None \<Rightarrow> Returned w
         | Some n \<Rightarrow>
             try_finally
               (try_catch (node_stop h n w)
                  (\<lambda>error w. Returned (console_error ''Error stopping tone:'' error w)))
               (\<lambda>w. w\<lparr>source := None\<rparr>))"

text \<open>
  The \<^verbatim>\<open>if (noiseType === 'none') ... else if ... 'white' ... else if ... 'pink'\<close> chain of
  \<^verbatim>\<open>playTone\<close>. The oscillator is assigned to \<^verbatim>\<open>source\<close> after it has started, a noise
  player before it is connected.
\<close>

definition startProducer :: "host \<Rightarrow> string \<Rightarrow> string \<Rightarrow> jsnum \<Rightarrow> world \<Rightarrow> outcome" where
  "startProducer h waveform noiseType freq w =
     (if noiseType = ''none'' then
        (let oscillator = length (nodes w)
         in and_then (create_node h CreateOscillator (Oscillator waveform freq) w) (\<lambda>w.
            and_then (node_connect h oscillator w) (\<lambda>w.
            and_then (node_start h oscillator w) (\<lambda>w.
              Returned (w\<lparr>source := Some oscillator\<rparr>)))))
      else if noiseType = ''white'' then
        (let whiteNoise = length (nodes w)
         in and_then (createWhiteNoise h w) (\<lambda>w.
            and_then (node_connect h whiteNoise (w\<lparr>source := Some whiteNoise\<rparr>)) (\<lambda>w.
              node_start h whiteNoise w)))
      else if noiseType = ''pink'' then
        (let pinkNoise = length (nodes w)
         in and_then (createPinkNoise h w) (\<lambda>w.
            and_then (node_connect h pinkNoise (w\<lparr>source := Some pinkNoise\<rparr>)) (\<lambda>w.
              node_start h pinkNoise w)))
      else Returned w)"

text \<open>
  The \<^verbatim>\<open>try\<close> block of \<^verbatim>\<open>playTone\<close>; \<open>freq\<close> is the value of
  \<^verbatim>\<open>parseFloat(frequency)\<close>.
\<close>

definition playTone_body :: "host \<Rightarrow> jsnum \<Rightarrow> world \<Rightarrow> outcome" where
  "playTone_body h freq w =
     and_then (ensureAudioContextActive h w) (\<lambda>w.
     and_then (ensureAnalyserOutput h w) (\<lambda>w.
     and_then (stopTone h w) (\<lambda>w.
       if isNaN freq \<or> le_zero freq then Threw InvalidFrequency w
       else
         (case (waveformInput h, noiseTypeInput h) of
            (Some waveform, Some noiseType) \<Rightarrow>
              and_then (startProducer h waveform noiseType freq w) (\<lambda>w. visualize h w)
          | _ \<Rightarrow> Threw SelectionMissing w))))"

definition playTone :: "host \<Rightarrow> jsnum \<Rightarrow> world \<Rightarrow> outcome" where
  "playTone h freq w =
     try_catch (playTone_body h freq w)
       (\<lambda>error w.
          Returned
            (alert (''Error playing tone: '' @ message error)
               (console_error ''Error in playTone:'' error w)))"

subsection \<open>mp3Handler.js\<close>

definition connect_and_play :: "host \<Rightarrow> nat \<Rightarrow> world \<Rightarrow> outcome" where
  "connect_and_play h n w =
     and_then (node_connect h n w) (\<lambda>w.
     and_then
       (try_catch (player_play h w)
          (\<lambda>playError w.
             Returned
               (alert (''Failed to play MP3: '' @ message playError)
                  (console_error ''Error starting playback:'' playError w))))
       (\<lambda>w. visualize h w))"

definition setupAudioNodes_body :: "host \<Rightarrow> world \<Rightarrow> outcome" where
  "setupAudioNodes_body h w =
     and_then (ensureAudioContextActive h w) (\<lambda>w.
     and_then (ensureAnalyserOutput h w) (\<lambda>w.
       if playerSrc w = [] then Returned (emit (ConsoleText ''Audio player has no source'') w)
       else if \<not> mediaElementSourceCreated w then
         (let created = length (nodes w)
          in and_then (create_node h CreateMediaElementSource MediaElementSource w) (\<lambda>w.
               connect_and_play h created
                 (w\<lparr>mp3Source := Some created, mediaElementSourceCreated := True\<rparr>)))
       else
         (case mp3Source w of
            Some existing \<Rightarrow> connect_and_play h existing w
          | None \<Rightarrow>
              Returned (emit (ConsoleText ''MediaElementSource was created but is null'') w))))"

definition setupAudioNodes :: "host \<Rightarrow> world \<Rightarrow> outcome" where
  "setupAudioNodes h w =
     try_catch (setupAudioNodes_body h w)
       (\<lambda>error w.
          Returned
            (alert (''Error setting up audio nodes: '' @ message error)
               (console_error ''Error in setupAudioNodes:'' error w)))"

definition stopMp3 :: "host \<Rightarrow> world \<Rightarrow> outcome" where
  "stopMp3 h w =
     try_catch
       (let w = (if truthy (currentVisualizerAnimation w)
                 then cancelAnimationFrame (handle_of (currentVisualizerAnimation w)) w
                 else w)
        in case mp3Source w of
             None \<Rightarrow> Returned w
           | Some n \<Rightarrow>
               (let w = player_pause w;
                    w = w\<lparr>playerCurrentTime := 0\<rparr>
                in and_then
                     (try_catch (node_disconnect h n w)
                        (\<lambda>disconnectError w.
                           Returned
                             (console_error ''Error disconnecting mp3Source:'' disconnectError w)))
                     (\<lambda>w. Returned (w\<lparr>mp3Source := None\<rparr>))))
       (\<lambda>error w. Returned (console_error ''Error in stopMp3:'' error w))"

text \<open>
  In \<^verbatim>\<open>clearMp3\<close>, \<^verbatim>\<open>audioPlayer.src = ''; audioPlayer.load()\<close> sets the attribute to the
  empty string and resets the element: it is paused, at time 0. What \<^verbatim>\<open>audioPlayer.src\<close>
  reads from then on is the host's \<open>emptySrcReads\<close>.
\<close>

definition clearMp3 :: "host \<Rightarrow> world \<Rightarrow> outcome" where
  "clearMp3 h w =
     try_catch
       (let w = w\<lparr>playerSrc := emptySrcReads h, playerPlaying := False,
                  playerCurrentTime := 0\<rparr>
        in and_then
             (case mp3Source w of
                None \<Rightarrow> Returned w
              | Some n \<Rightarrow>
                  try_finally
                    (try_catch (node_disconnect h n w)
                       (\<lambda>disconnectError w.
                          Returned
                            (console_error ''Error disconnecting mp3Source:'' disconnectError w)))
                    (\<lambda>w. w\<lparr>mp3Source := None\<rparr>))
             (\<lambda>w. Returned (w\<lparr>mediaElementSourceCreated := False\<rparr>)))
       (\<lambda>error w. Returned (console_error ''Error in clearMp3:'' error w))"

subsection \<open>script.js\<close>

text \<open>
  The \<^verbatim>\<open>change\<close> handler of the uploader, for a file it accepts: it activates the
  context, then sets \<^verbatim>\<open>audioElement.src = url\<close> (\<open>load_file\<close>); the \<^verbatim>\<open>loadeddata\<close>
  listener it registers calls \<^verbatim>\<open>setupAudioNodes\<close> later.
\<close>

definition load_file :: "string \<Rightarrow> world \<Rightarrow> world" where
  "load_file url w = w\<lparr>playerSrc := url\<rparr>"

definition upload :: "host \<Rightarrow> string \<Rightarrow> world \<Rightarrow> outcome" where
  "upload h url w =
     try_catch
       (and_then (ensureAudioContextActive h w) (\<lambda>w. Returned (load_file url w)))
       (\<lambda>error w.
          Returned
            (alert (''Error uploading MP3: '' @ message error)
               (console_error ''Error in MP3 upload handler:'' error w)))"

section \<open>Observations\<close>

definition world_of :: "outcome \<Rightarrow> world" where
  "world_of r = (case r of Returned w \<Rightarrow> w | Threw e w \<Rightarrow> w)"

text \<open>Whether an operation ended by throwing to its caller.\<close>

definition propagates :: "outcome \<Rightarrow> bool" where
  "propagates r = (case r of Returned w \<Rightarrow> False | Threw e w \<Rightarrow> True)"

text \<open>The events an operation added to the trace of the world \<open>w\<close> it started in.\<close>

definition new_events :: "world \<Rightarrow> world \<Rightarrow> event list" where
  "new_events w w' = drop (length (trace w)) (trace w')"

text \<open>A host call that creates a producer or connects one to the analyser.\<close>

definition is_producer_event :: "event \<Rightarrow> bool" where
  "is_producer_event e =
     (case e of
        CreateOscillator \<Rightarrow> True
      | CreateBuffer \<Rightarrow> True
      | CreateMediaElementSource \<Rightarrow> True
      | Connect n \<Rightarrow> True
      | _ \<Rightarrow> False)"

text \<open>
  \<open>ensured st evs\<close> reads a list of events from stage \<open>st\<close>: stage 0 before
  \<^verbatim>\<open>ensureAudioContextActive\<close> was entered, stage 1 after it, stage 2 once
  \<^verbatim>\<open>ensureAnalyserOutput\<close> was entered after that. It holds when every producer event of
  the list stands at stage 2.
\<close>

primrec ensured :: "nat \<Rightarrow> event list \<Rightarrow> bool" where
  "ensured st [] = True"
| "ensured st (e # es) =
     (if is_producer_event e then st = 2 \<and> ensured st es
      else if e = Enter EnsureAudioContextActive \<and> st = 0 then ensured 1 es
      else if e = Enter EnsureAnalyserOutput \<and> st = 1 then ensured 2 es
      else ensured st es)"

text \<open>The trace of \<open>w'\<close> is the trace of \<open>w\<close> with events added at its end.\<close>

definition grows :: "world \<Rightarrow> world \<Rightarrow> bool" where
  "grows w w' = (trace w' = trace w @ new_events w w')"

text \<open>The same, and none of the added events is a producer event.\<close>

definition quiet :: "world \<Rightarrow> world \<Rightarrow> bool" where
  "quiet w w' = (grows w w' \<and> list_all (\<lambda>e. is_producer_event e = False) (new_events w w'))"

text \<open>
  Two worlds with the same audio side: context, analyser, nodes, player and the module
  variables of toneGenerator.js and mp3Handler.js.
\<close>

definition same_graph :: "world \<Rightarrow> world \<Rightarrow> bool" where
  "same_graph w w' =
     (ctxState w' = ctxState w \<and> analyser w' = analyser w \<and> nodes w' = nodes w \<and>
      source w' = source w \<and> mp3Source w' = mp3Source w \<and>
      mediaElementSourceCreated w' = mediaElementSourceCreated w \<and>
      playerSrc w' = playerSrc w \<and> playerPlaying w' = playerPlaying w \<and>
      playerCurrentTime w' = playerCurrentTime w)"

text \<open>Two worlds with the same visualizer side: mode, handle, pending callbacks.\<close>

definition same_visual :: "world \<Rightarrow> world \<Rightarrow> bool" where
  "same_visual w w' =
     (currentVisualizerAnimation w' = currentVisualizerAnimation w \<and>
      visualizerType w' = visualizerType w \<and> frames w' = frames w \<and>
      frameCounter w' = frameCounter w)"

text \<open>No producer node is connected to the analyser.\<close>

definition no_producer_connected :: "world \<Rightarrow> bool" where
  "no_producer_connected w = list_all (\<lambda>x. toAnalyser x = False) (nodes w)"

text \<open>
  At most one frame callback is pending, and it is the one whose handle
  \<^verbatim>\<open>currentVisualizerAnimation\<close> holds.
\<close>

definition one_loop :: "world \<Rightarrow> bool" where
  "one_loop w =
     (length (frames w) \<le> 1 \<and>
      list_all
        (\<lambda>p. currentVisualizerAnimation w = Some (fst p) \<and> 0 < fst p \<and> fst p \<le> frameCounter w)
        (frames w))"

text \<open>How often \<^verbatim>\<open>createMediaElementSource\<close> is called in a list of events.\<close>

definition creations :: "event list \<Rightarrow> nat" where
  "creations evs = length (filter (\<lambda>e. e = CreateMediaElementSource) evs)"

text \<open>
  The worlds the page can reach: the modules load, then the handlers of script.js and the
  host's frame callbacks run in any order, with any inputs and any host behaviour, and the
  host changes the state of the context and of the player as it likes.
\<close>

inductive reachable :: "world \<Rightarrow> bool" where
  loaded: "reachable (initial_world st)"
| play_tone: "reachable w \<Longrightarrow> reachable (world_of (playTone h freq w))"
| stop_tone: "reachable w \<Longrightarrow> reachable (world_of (stopTone h w))"
| upload: "reachable w \<Longrightarrow> reachable (world_of (upload h url w))"
| host:
    "reachable w \<Longrightarrow>
     reachable (w\<lparr>ctxState := st, playerPlaying := playing, playerCurrentTime := t\<rparr>)"
| loaded_data: "reachable w \<Longrightarrow> reachable (world_of (setupAudioNodes h w))"
| stop_mp3: "reachable w \<Longrightarrow> reachable (world_of (stopMp3 h w))"
| clear_mp3: "reachable w \<Longrightarrow> reachable (world_of (clearMp3 h w))"
| select: "reachable w \<Longrightarrow> reachable (world_of (visualize h (select_visualizer v w)))"
| frame: "reachable w \<Longrightarrow> reachable (world_of (run_frame h n w))"

text \<open>
  A host on which no call fails, with the radio buttons index.html checks by default
  (sine, no noise); the page is served from \<^verbatim>\<open>http://localhost/\<close>.
\<close>

definition default_host :: host where
  "default_host =
     \<lparr>resumeRejects = False, connectDestinationThrows = False,
      waveformInput = Some ''sine'', noiseTypeInput = Some ''none'',
      ctxSampleRate = 44100, mathRandom = (\<lambda>k. 1 / 2),
      createThrows = False, connectThrows = False, startThrows = False, stopThrows = False,
      disconnectThrows = False, playRejects = False, renderThrows = False,
      emptySrcReads = ''http://localhost/''\<rparr>"

text \<open>
  The page after a click on "Play Tone" with the default selection at 440 Hz, on a running
  context and a host on which no call fails: a sine oscillator is playing.
\<close>

definition tone_playing :: world where
  "tone_playing = world_of (playTone default_host (Finite 440) (initial_world Running))"

text \<open>
  The page after an upload whose data has loaded, on the same host: the media element is
  bound, connected and playing.
\<close>

definition media_playing :: world where
  "media_playing =
     world_of (setupAudioNodes default_host (load_file ''blob:a'' (initial_world Running)))"

text \<open>The same page after a click on "Stop MP3".\<close>

definition media_stopped :: world where
  "media_stopped = world_of (stopMp3 default_host media_playing)"

text \<open>A host that rejects \<^verbatim>\<open>audioContext.resume()\<close> and fails nowhere else.\<close>

definition blocking_host :: host where
  "blocking_host = default_host\<lparr>resumeRejects := True\<rparr>"

text \<open>
  A host that refuses to create a node, as a browser refuses
  \<^verbatim>\<open>createMediaElementSource\<close> on an element it has wrapped before.
\<close>

definition refusing_host :: host where
  "refusing_host = default_host\<lparr>createThrows := True\<rparr>"



text \<open>A host on which painting a frame fails and nothing else does.\<close>

definition failing_canvas_host :: host where
  "failing_canvas_host = default_host\<lparr>renderThrows := True\<rparr>"

section \<open>Properties of the noise generators\<close>

lemma white_loop_length:
  "length (white_loop random n i out) = length out"
  by (induction random n i out rule: white_loop.induct)
    (subst white_loop.simps, simp)

lemma white_loop_nth:
  "length out = n \<Longrightarrow> k < n \<Longrightarrow>
   white_loop random n i out ! k = (if i \<le> k then random k * 2 - 1 else out ! k)"
proof (induction random n i out rule: white_loop.induct)
  case (1 random bufferSize i out)
  show ?case
  proof (cases "i < bufferSize")
    case True
    have "white_loop random bufferSize i out ! k =
          white_loop random bufferSize (Suc i) (out[i := random i * 2 - 1]) ! k"
      using True by (subst white_loop.simps) simp
    also have "\<dots> = (if Suc i \<le> k then random k * 2 - 1
                      else out[i := random i * 2 - 1] ! k)"
      using "1.IH" [OF True] "1.prems" by simp
    also have "\<dots> = (if i \<le> k then random k * 2 - 1 else out ! k)"
      using "1.prems" True by (auto simp: nth_list_update not_less_eq_eq)
    finally show ?thesis .
  next
    case False
    then show ?thesis
      using "1.prems" by (subst white_loop.simps) simp
  qed
qed

lemma kellet_step_six:
  "kellet_step white [b0, b1, b2, b3, b4, b5] =
     [0.99886 * b0 + white * 0.0555179, 0.99332 * b1 + white * 0.0750759,
      0.96900 * b2 + white * 0.1538520, 0.86650 * b3 + white * 0.3104856,
      0.55000 * b4 + white * 0.5329522, - 0.7616 * b5 - white * 0.0168980]"
  by (simp add: kellet_step_def kellet_poles_def)

lemma pink_loop_length:
  "length (pink_loop random n i b0 b1 b2 b3 b4 b5 out) = length out"
  by (induction random n i b0 b1 b2 b3 b4 b5 out rule: pink_loop.induct)
    (subst pink_loop.simps, simp add: Let_def)

lemma pink_loop_run:
  "length out = n \<Longrightarrow> i \<le> n \<Longrightarrow>
   pink_loop random n i b0 b1 b2 b3 b4 b5 out =
     take i out @ kellet_run [b0, b1, b2, b3, b4, b5] (map (\<lambda>k. random k * 2 - 1) [i..<n])"
proof (induction random n i b0 b1 b2 b3 b4 b5 out rule: pink_loop.induct)
  case (1 random bufferSize i b0 b1 b2 b3 b4 b5 out)
  show ?case
  proof (cases "i < bufferSize")
    case True
    define white where "white = random i * 2 - 1"
    define c0 where "c0 = 0.99886 * b0 + white * 0.0555179"
    define c1 where "c1 = 0.99332 * b1 + white * 0.0750759"
    define c2 where "c2 = 0.96900 * b2 + white * 0.1538520"
    define c3 where "c3 = 0.86650 * b3 + white * 0.3104856"
    define c4 where "c4 = 0.55000 * b4 + white * 0.5329522"
    define c5 where "c5 = - 0.7616 * b5 - white * 0.0168980"
    define s where "s = c0 + c1 + c2 + c3 + c4 + c5 + white * 0.5362"
    define out1 where "out1 = out[i := s]"
    define out2 where "out2 = (if i < length out1 then out1[i := out1 ! i * 0.11] else out1)"
    have len: "i < length out" using True "1.prems" by simp
    have out2: "out2 = out[i := s * 0.11]"
      using len by (simp add: out2_def out1_def)
    have unfold: "pink_loop random bufferSize i b0 b1 b2 b3 b4 b5 out =
        pink_loop random bufferSize (Suc i) c0 c1 c2 c3 c4 c5 out2"
      unfolding out2_def out1_def s_def c0_def c1_def c2_def c3_def c4_def c5_def white_def
      by (simp only: pink_loop.simps [of random bufferSize i b0 b1 b2 b3 b4 b5 out]
          True if_True Let_def)
    have ih: "pink_loop random bufferSize (Suc i) c0 c1 c2 c3 c4 c5 out2 =
        take (Suc i) out2 @
        kellet_run [c0, c1, c2, c3, c4, c5] (map (\<lambda>k. random k * 2 - 1) [Suc i..<bufferSize])"
    proof (rule "1.IH" [OF True white_def c0_def c1_def c2_def c3_def c4_def c5_def])
      show "out1 = out[i := c0 + c1 + c2 + c3 + c4 + c5 + white * 0.5362]"
        by (simp only: out1_def s_def)
      show "out2 = (if i < length out1 then out1[i := out1 ! i * 0.11] else out1)"
        by (rule out2_def)
      show "length out2 = bufferSize"
        using "1.prems" by (simp add: out2)
      show "Suc i \<le> bufferSize"
        using True by simp
    qed
    have tk: "take (Suc i) out2 = take i out @ [s * 0.11]"
      using len by (simp add: out2 take_Suc_conv_app_nth)
    have sum6: "sum_list [c0, c1, c2, c3, c4, c5] = c0 + c1 + c2 + c3 + c4 + c5"
      by simp
    have step: "kellet_run [b0, b1, b2, b3, b4, b5] (map (\<lambda>k. random k * 2 - 1) [i..<bufferSize]) =
        s * 0.11 # kellet_run [c0, c1, c2, c3, c4, c5] (map (\<lambda>k. random k * 2 - 1) [Suc i..<bufferSize])"
      unfolding s_def sum6 [symmetric]
      unfolding c0_def c1_def c2_def c3_def c4_def c5_def white_def
      by (simp only: upt_conv_Cons [OF True] list.map kellet_run.simps Let_def kellet_step_six)
    show ?thesis
      by (simp only: unfold ih tk step append_assoc append_Cons append_Nil)
  next
    case False
    then show ?thesis
      using "1.prems" by (subst pink_loop.simps) simp
  qed
qed

text \<open>
  Claim C6. The buffer \<^verbatim>\<open>createWhiteNoise\<close> fills has exactly \<open>2 * sampleRate\<close> samples,
  and when every draw of \<^verbatim>\<open>Math.random()\<close> lies in \<open>[0, 1)\<close>, sample \<open>k\<close> is the \<open>k\<close>-th
  draw \<open>r\<close> transformed to \<open>r * 2 - 1\<close> and lies in \<open>[-1, 1]\<close>.
\<close>

theorem whiteNoiseBuffer_length_range:
  assumes "\<forall>k. 0 \<le> random k \<and> random k < 1"
  shows "length (whiteNoiseBuffer sampleRate random) = 2 * sampleRate \<and>
         (\<forall>k < 2 * sampleRate.
            whiteNoiseBuffer sampleRate random ! k = random k * 2 - 1 \<and>
            - 1 \<le> whiteNoiseBuffer sampleRate random ! k \<and>
            whiteNoiseBuffer sampleRate random ! k \<le> 1)"
proof (intro conjI allI impI)
  show "length (whiteNoiseBuffer sampleRate random) = 2 * sampleRate"
    by (simp add: whiteNoiseBuffer_def Let_def white_loop_length)
next
  fix k
  assume k: "k < 2 * sampleRate"
  have r: "0 \<le> random k" "random k < 1"
    using assms by simp_all
  show eq: "whiteNoiseBuffer sampleRate random ! k = random k * 2 - 1"
    using k by (simp add: whiteNoiseBuffer_def Let_def white_loop_nth)
  show "- 1 \<le> whiteNoiseBuffer sampleRate random ! k"
    using r by (simp add: eq)
  show "whiteNoiseBuffer sampleRate random ! k \<le> 1"
    using r by (simp add: eq)
qed

theorem whiteNoiseBuffer_length_range_witness:
  "(\<forall>k. (0::real) \<le> (if k = 0 then 0 else 3 / 4) \<and> (if k = 0 then 0 else 3 / 4) < (1::real)) \<and>
   length (whiteNoiseBuffer 1 (\<lambda>k. if k = 0 then 0 else 3 / 4)) = 2 \<and>
   whiteNoiseBuffer 1 (\<lambda>k. if k = 0 then 0 else 3 / 4) ! 0 = - 1 \<and>
   whiteNoiseBuffer 1 (\<lambda>k. if k = 0 then 0 else 3 / 4) ! 1 = 1 / 2 \<and>
   whiteNoiseBuffer 1 (\<lambda>k. if k = 0 then 0 else 3 / 4) ! 1 \<le> 1"
proof -
  have h: "\<forall>k. (0::real) \<le> (if k = 0 then 0 else 3 / 4) \<and> (if k = 0 then 0 else 3 / 4) < (1::real)"
    by simp
  show ?thesis
    using whiteNoiseBuffer_length_range [OF h, of 1] h by simp
qed

text \<open>
  Claim C7. The buffer \<^verbatim>\<open>createPinkNoise\<close> fills has \<open>2 * sampleRate\<close> samples and is the
  run of the six-pole filter of the specification (\<open>kellet_poles\<close>, direct white term
  weighted 0.5362, sum scaled by 0.11) over the white samples \<open>r * 2 - 1\<close> of the successive
  draws, started from the all-zero filter state. The generator takes no filter state and
  returns none: each call starts from zero, and two calls share nothing but their inputs.
\<close>

theorem pinkNoiseBuffer_is_kellet_filter:
  "pinkNoiseBuffer sampleRate random = pink_spec sampleRate random \<and>
   pink_spec sampleRate random =
     kellet_run [0, 0, 0, 0, 0, 0] (map (\<lambda>i. random i * 2 - 1) [0..<2 * sampleRate]) \<and>
   length (pinkNoiseBuffer sampleRate random) = 2 * sampleRate"
proof -
  have six: "replicate 6 (0::real) = [0, 0, 0, 0, 0, 0]"
    by (simp add: eval_nat_numeral)
  have run: "pinkNoiseBuffer sampleRate random =
      kellet_run [0, 0, 0, 0, 0, 0] (map (\<lambda>i. random i * 2 - 1) [0..<2 * sampleRate])"
    using pink_loop_run [of "replicate (2 * sampleRate) 0" "2 * sampleRate" 0 random 0 0 0 0 0 0]
    by (simp add: pinkNoiseBuffer_def Let_def)
  have spec: "pink_spec sampleRate random =
      kellet_run [0, 0, 0, 0, 0, 0] (map (\<lambda>i. random i * 2 - 1) [0..<2 * sampleRate])"
    by (simp only: pink_spec_def white_samples_def six)
  have len: "length (pinkNoiseBuffer sampleRate random) = 2 * sampleRate"
    by (simp add: pinkNoiseBuffer_def Let_def pink_loop_length)
  show ?thesis
    using run spec len by simp
qed

section \<open>Reasoning about outcomes\<close>

text \<open>
  Each operation gets a summary: whether it returns or throws, which fields of the world it
  leaves alone, and how the trace grows. The summaries of the small functions are computed
  from their definitions; those of \<^verbatim>\<open>playTone\<close> and \<^verbatim>\<open>setupAudioNodes\<close> are composed from
  them, with the worlds in between named \<open>W1\<close>, \<open>W2\<close>, \<open>W3\<close>.
\<close>

lemma and_then_simps [simp]:
  "and_then (Returned w) k = k w"
  "and_then (Threw e w) k = Threw e w"
  by (simp_all add: and_then_def)

lemma try_catch_simps [simp]:
  "try_catch (Returned w) handler = Returned w"
  "try_catch (Threw e w) handler = handler e w"
  by (simp_all add: try_catch_def)

lemma try_finally_simps [simp]:
  "try_finally (Returned w) f = Returned (f w)"
  "try_finally (Threw e w) f = Threw e (f w)"
  by (simp_all add: try_finally_def)

lemma world_of_simps [simp]:
  "world_of (Returned w) = w"
  "world_of (Threw e w) = w"
  by (simp_all add: world_of_def)

lemma propagates_simps [simp]:
  "propagates (Returned w) = False"
  "propagates (Threw e w) = True"
  by (simp_all add: propagates_def)

lemma emit_fields [simp]:
  "trace (emit e w) = trace w @ [e]"
  "ctxState (emit e w) = ctxState w"
  "analyser (emit e w) = analyser w"
  "nodes (emit e w) = nodes w"
  "source (emit e w) = source w"
  "mp3Source (emit e w) = mp3Source w"
  "mediaElementSourceCreated (emit e w) = mediaElementSourceCreated w"
  "playerSrc (emit e w) = playerSrc w"
  "playerPlaying (emit e w) = playerPlaying w"
  "currentVisualizerAnimation (emit e w) = currentVisualizerAnimation w"
  "visualizerType (emit e w) = visualizerType w"
  "frames (emit e w) = frames w"
  "frameCounter (emit e w) = frameCounter w"
  by (simp_all add: emit_def)

lemma ensureAudioContextActive_eq:
  "ensureAudioContextActive h w =
     (if ctxState w = Suspended \<and> resumeRejects h
      then Threw AudioContextNotResumed
        (alert ''Audio playback is blocked. Please interact with the page to enable sound.''
          (console_error ''Failed to resume AudioContext:'' (HostError ''resume'')
            (emit Resume (emit (Enter EnsureAudioContextActive) w))))
      else if ctxState w = Suspended
      then Returned ((emit Resume (emit (Enter EnsureAudioContextActive) w))\<lparr>ctxState := Running\<rparr>)
      else Returned (emit (Enter EnsureAudioContextActive) w))"
  by (simp add: ensureAudioContextActive_def ctx_resume_def Let_def)

lemma ensureAnalyserOutput_eq:
  "ensureAnalyserOutput h w =
     Returned
       (if analyser w = None \<or> ctxState w = Closed
        then alert (''Error connecting analyser to output: '' @ message AnalyserInvalidOrClosed)
               (console_error ''Error ensuring analyser output:'' AnalyserInvalidOrClosed
                  (emit (Enter EnsureAnalyserOutput) w))
        else if connectDestinationThrows h
        then alert (''Error connecting analyser to output: '' @ message (HostError ''connect''))
               (console_error ''Error ensuring analyser output:'' (HostError ''connect'')
                  (emit ConnectDestination (emit (Enter EnsureAnalyserOutput) w)))
        else (emit ConnectDestination (emit (Enter EnsureAnalyserOutput) w))
               \<lparr>analyser := map_option (\<lambda>a. a\<lparr>toDestination := True\<rparr>) (analyser w)\<rparr>)"
  by (simp add: ensureAnalyserOutput_def analyser_connect_destination_def Let_def)

lemma stopTone_eq:
  "stopTone h w =
     Returned
       (case source w of
          None \<Rightarrow> emit (Enter StopTone) w
        | Some n \<Rightarrow>
            (if stopThrows h
             then console_error ''Error stopping tone:'' (HostError ''stop'')
                    (emit (Stop n) (emit (Enter StopTone) w))
             else upd_node n (\<lambda>x. x\<lparr>playState := Stopped\<rparr>)
                    (emit (Stop n) (emit (Enter StopTone) w)))\<lparr>source := None\<rparr>)"
  by (simp add: stopTone_def node_stop_def Let_def split: option.splits)

lemma emit_playerCurrentTime [simp]: "playerCurrentTime (emit e w) = playerCurrentTime w"
  by (simp add: emit_def)

lemma grows_iff: "grows w w' \<longleftrightarrow> (\<exists>evs. trace w' = trace w @ evs)"
  by (auto simp: grows_def new_events_def)

lemma grows_refl [simp]: "grows w w"
  by (simp add: grows_iff)

lemma grows_trans: "grows w w1 \<Longrightarrow> grows w1 w2 \<Longrightarrow> grows w w2"
  by (auto simp: grows_iff)

lemma grows_emit [simp]: "grows w w' \<Longrightarrow> grows w (emit e w')"
  by (auto simp: grows_iff)

lemma new_events_trans:
  "grows w w1 \<Longrightarrow> grows w1 w2 \<Longrightarrow> new_events w w2 = new_events w w1 @ new_events w1 w2"
  by (auto simp: grows_iff new_events_def)

lemma quiet_iff:
  "quiet w w' \<longleftrightarrow>
     (\<exists>evs. trace w' = trace w @ evs \<and> list_all (\<lambda>e. is_producer_event e = False) evs)"
  by (auto simp: quiet_def grows_def new_events_def)

lemma quiet_refl [simp]: "quiet w w"
  by (simp add: quiet_iff)

lemma quiet_trans: "quiet w w1 \<Longrightarrow> quiet w1 w2 \<Longrightarrow> quiet w w2"
  by (auto simp: quiet_iff)

lemma quiet_grows: "quiet w w' \<Longrightarrow> grows w w'"
  by (simp add: quiet_def)

lemma same_graph_refl [simp]: "same_graph w w"
  by (simp add: same_graph_def)

lemma same_graph_trans: "same_graph w w1 \<Longrightarrow> same_graph w1 w2 \<Longrightarrow> same_graph w w2"
  by (simp add: same_graph_def)

lemma same_visual_refl [simp]: "same_visual w w"
  by (simp add: same_visual_def)

lemma same_visual_trans: "same_visual w w1 \<Longrightarrow> same_visual w1 w2 \<Longrightarrow> same_visual w w2"
  by (simp add: same_visual_def)

lemma same_visual_emit [simp]: "same_visual w (emit e w') = same_visual w w'"
  by (simp add: same_visual_def)

lemma same_graph_emit [simp]: "same_graph w (emit e w') = same_graph w w'"
  by (simp add: same_graph_def)

subsection \<open>The visualizer\<close>

lemma draw_eq:
  "draw d h w =
     Returned
       (if renderThrows h
        then cancelAnimationFrame (Suc (frameCounter w))
               (console_error (''Error in '' @ strategy_label d @ '' animation frame:'')
                  (HostError ''render'')
                  (emit (Render d)
                     ((requestAnimationFrame d w)
                        \<lparr>currentVisualizerAnimation := Some (Suc (frameCounter w))\<rparr>)))
        else emit (Render d)
               ((requestAnimationFrame d w)
                  \<lparr>currentVisualizerAnimation := Some (Suc (frameCounter w))\<rparr>))"
  by (simp add: draw_def render_def requestAnimationFrame_def Let_def handle_of_def
      console_error_def)

lemma draw_summary:
  "\<exists>w'. draw d h w = Returned w' \<and> same_graph w w' \<and> quiet w w' \<and>
        visualizerType w' = visualizerType w \<and>
        frames w' = (if renderThrows h then filter (\<lambda>p. fst p \<noteq> Suc (frameCounter w)) (frames w)
                     else frames w @ [(Suc (frameCounter w), d)]) \<and>
        currentVisualizerAnimation w' = Some (Suc (frameCounter w)) \<and>
        frameCounter w' = Suc (frameCounter w)"
  by (simp add: draw_eq requestAnimationFrame_def cancelAnimationFrame_def console_error_def
      Let_def same_graph_def quiet_iff is_producer_event_def)

lemma start_loop_summary:
  "\<exists>w'. start_loop d name h w = Returned w' \<and> same_graph w w' \<and> quiet w w' \<and>
        visualizerType w' = visualizerType w \<and>
        (if analyser w = None
         then frames w' = frames w \<and> currentVisualizerAnimation w' = currentVisualizerAnimation w \<and>
              frameCounter w' = frameCounter w
         else frames w' = (if renderThrows h
                           then filter (\<lambda>p. fst p \<noteq> Suc (frameCounter w)) (frames w)
                           else frames w @ [(Suc (frameCounter w), d)]) \<and>
              currentVisualizerAnimation w' = Some (Suc (frameCounter w)) \<and>
              frameCounter w' = Suc (frameCounter w))"
proof (cases "analyser w = None")
  case True
  then show ?thesis by (simp add: start_loop_def quiet_iff is_producer_event_def)
next
  case False
  obtain w' where d: "draw d h w = Returned w'" and rest: "same_graph w w'" "quiet w w'"
    "visualizerType w' = visualizerType w"
    "frames w' = (if renderThrows h then filter (\<lambda>p. fst p \<noteq> Suc (frameCounter w)) (frames w)
                     else frames w @ [(Suc (frameCounter w), d)])"
    "currentVisualizerAnimation w' = Some (Suc (frameCounter w))"
    "frameCounter w' = Suc (frameCounter w)"
    using draw_summary [of d h w] by blast
  show ?thesis
    using False rest by (auto simp: start_loop_def d)
qed

lemma one_loop_cancel:
  assumes "one_loop w"
  shows "(if truthy (currentVisualizerAnimation w)
          then filter (\<lambda>p. fst p \<noteq> handle_of (currentVisualizerAnimation w)) (frames w)
          else frames w) = []"
proof (cases "frames w")
  case Nil
  then show ?thesis by simp
next
  case (Cons p ps)
  with assms have ps: "ps = []" and cur: "currentVisualizerAnimation w = Some (fst p)" "0 < fst p"
    by (auto simp: one_loop_def)
  show ?thesis
    using Cons ps cur by (simp add: truthy_def handle_of_def)
qed

lemma visualize_dispatch:
  "(\<exists>d name.
      (if vt = ''bar'' then drawBarGraph h w
       else if vt = ''kaleidoscope'' then drawKaleidoscope h w
       else if vt = ''kaleidoscope-b'' then drawKaleidoscopeB h w
       else Returned (emit ClearRect w)) = start_loop d name h w) \<or>
   (if vt = ''bar'' then drawBarGraph h w
    else if vt = ''kaleidoscope'' then drawKaleidoscope h w
    else if vt = ''kaleidoscope-b'' then drawKaleidoscopeB h w
    else Returned (emit ClearRect w)) = Returned (emit ClearRect w)"
proof -
  consider "vt = ''bar''" | "vt \<noteq> ''bar''" "vt = ''kaleidoscope''"
    | "vt \<noteq> ''bar''" "vt \<noteq> ''kaleidoscope''" "vt = ''kaleidoscope-b''"
    | "vt \<noteq> ''bar''" "vt \<noteq> ''kaleidoscope''" "vt \<noteq> ''kaleidoscope-b''"
    by blast
  then show ?thesis
  proof cases
    case 1
    show ?thesis
      by (rule disjI1, rule exI [of _ Bar], rule exI [of _ "''drawBarGraph''"])
        (simp add: 1 drawBarGraph_def)
  next
    case 2
    show ?thesis
      by (rule disjI1, rule exI [of _ Kaleidoscope], rule exI [of _ "''drawKaleidoscope''"])
        (use 2 in \<open>simp add: drawKaleidoscope_def\<close>)
  next
    case 3
    show ?thesis
      by (rule disjI1, rule exI [of _ KaleidoscopeB], rule exI [of _ "''drawKaleidoscopeB''"])
        (use 3 in \<open>simp add: drawKaleidoscopeB_def\<close>)
  next
    case 4
    show ?thesis
      by (rule disjI2) (use 4 in simp)
  qed
qed

lemma visualize_summary:
  "\<exists>w'. visualize h w = Returned w' \<and> same_graph w w' \<and> quiet w w' \<and>
        visualizerType w' = visualizerType w \<and>
        (truthy (currentVisualizerAnimation w) \<longrightarrow>
           (\<exists>evs. new_events w w' =
              Enter Visualize # CancelFrame (handle_of (currentVisualizerAnimation w)) # evs)) \<and>
        (one_loop w \<longrightarrow>
           frames w' = [] \<or>
           (\<exists>d. frames w' = [(Suc (frameCounter w), d)] \<and>
                currentVisualizerAnimation w' = Some (Suc (frameCounter w)) \<and>
                frameCounter w' = Suc (frameCounter w)))"
proof -
  define w0 where "w0 = emit (Enter Visualize) w"
  define w1 where "w1 =
    (if truthy (currentVisualizerAnimation w0)
     then cancelAnimationFrame (handle_of (currentVisualizerAnimation w0)) w0 else w0)"
  have g1: "same_graph w w1" "visualizerType w1 = visualizerType w"
    "frameCounter w1 = frameCounter w" "analyser w1 = analyser w"
    by (simp_all add: w1_def w0_def cancelAnimationFrame_def same_graph_def)
  have t1: "trace w1 = trace w @ Enter Visualize #
      (if truthy (currentVisualizerAnimation w)
       then [CancelFrame (handle_of (currentVisualizerAnimation w))] else [])"
    by (simp add: w1_def w0_def cancelAnimationFrame_def)
  have f1: "frames w1 =
      (if truthy (currentVisualizerAnimation w)
       then filter (\<lambda>p. fst p \<noteq> handle_of (currentVisualizerAnimation w)) (frames w)
       else frames w)"
    by (simp add: w1_def w0_def cancelAnimationFrame_def)
  have e1: "one_loop w \<Longrightarrow> frames w1 = []"
    using one_loop_cancel [of w] by (simp only: f1)
  have unfold: "visualize h w =
      try_catch
        (if visualizerType w1 = ''bar'' then drawBarGraph h w1
         else if visualizerType w1 = ''kaleidoscope'' then drawKaleidoscope h w1
         else if visualizerType w1 = ''kaleidoscope-b'' then drawKaleidoscopeB h w1
         else Returned (emit ClearRect w1))
        (\<lambda>error w. Returned (console_error ''Error in visualize:'' error w))"
    by (simp add: visualize_def Let_def w1_def w0_def cancelAnimationFrame_def)
  have "\<exists>w'. visualize h w = Returned w' \<and> same_graph w1 w' \<and>
        visualizerType w' = visualizerType w1 \<and>
        quiet w1 w' \<and>
        (frames w1 = [] \<longrightarrow>
           frames w' = [] \<or>
           (\<exists>d. frames w' = [(Suc (frameCounter w1), d)] \<and>
                currentVisualizerAnimation w' = Some (Suc (frameCounter w1)) \<and>
                frameCounter w' = Suc (frameCounter w1)))"
    using visualize_dispatch [of "visualizerType w1" h w1]
  proof (elim disjE exE)
    fix d name
    assume eq: "(if visualizerType w1 = ''bar'' then drawBarGraph h w1
       else if visualizerType w1 = ''kaleidoscope'' then drawKaleidoscope h w1
       else if visualizerType w1 = ''kaleidoscope-b'' then drawKaleidoscopeB h w1
       else Returned (emit ClearRect w1)) = start_loop d name h w1"
    obtain w' where s: "start_loop d name h w1 = Returned w'" and sg: "same_graph w1 w'"
      and gr: "quiet w1 w'" and vt: "visualizerType w' = visualizerType w1"
      and fr: "(if analyser w1 = None
         then frames w' = frames w1 \<and> currentVisualizerAnimation w' = currentVisualizerAnimation w1 \<and>
              frameCounter w' = frameCounter w1
         else frames w' = (if renderThrows h
                           then filter (\<lambda>p. fst p \<noteq> Suc (frameCounter w1)) (frames w1)
                           else frames w1 @ [(Suc (frameCounter w1), d)]) \<and>
              currentVisualizerAnimation w' = Some (Suc (frameCounter w1)) \<and>
              frameCounter w' = Suc (frameCounter w1))"
      using start_loop_summary [of d name h w1] by blast
    have "visualize h w = Returned w'"
      by (simp only: unfold eq s try_catch_simps)
    moreover have "frames w1 = [] \<longrightarrow>
           frames w' = [] \<or>
           (\<exists>d. frames w' = [(Suc (frameCounter w1), d)] \<and>
                currentVisualizerAnimation w' = Some (Suc (frameCounter w1)) \<and>
                frameCounter w' = Suc (frameCounter w1))"
      using fr by (auto split: if_splits)
    ultimately show ?thesis
      using sg gr vt by auto
  next
    assume eq: "(if visualizerType w1 = ''bar'' then drawBarGraph h w1
       else if visualizerType w1 = ''kaleidoscope'' then drawKaleidoscope h w1
       else if visualizerType w1 = ''kaleidoscope-b'' then drawKaleidoscopeB h w1
       else Returned (emit ClearRect w1)) = Returned (emit ClearRect w1)"
    have "visualize h w = Returned (emit ClearRect w1)"
      by (simp only: unfold eq try_catch_simps)
    then show ?thesis
      by (simp add: quiet_iff is_producer_event_def)
  qed
  then obtain w' where v: "visualize h w = Returned w'" and sg: "same_graph w1 w'"
    and vt: "visualizerType w' = visualizerType w1" and q1: "quiet w1 w'"
    and fr: "frames w1 = [] \<longrightarrow>
           frames w' = [] \<or>
           (\<exists>d. frames w' = [(Suc (frameCounter w1), d)] \<and>
                currentVisualizerAnimation w' = Some (Suc (frameCounter w1)) \<and>
                frameCounter w' = Suc (frameCounter w1))"
    by blast
  have "same_graph w w'"
    using g1(1) sg by (rule same_graph_trans)
  moreover have q0: "quiet w w1"
    using t1 by (simp add: quiet_iff is_producer_event_def)
  then have "quiet w w'"
    using q1 by (rule quiet_trans)
  moreover have "truthy (currentVisualizerAnimation w) \<longrightarrow>
           (\<exists>evs. new_events w w' =
              Enter Visualize # CancelFrame (handle_of (currentVisualizerAnimation w)) # evs)"
    using q1 t1 by (auto simp: new_events_def quiet_iff)
  moreover have "one_loop w \<longrightarrow>
           frames w' = [] \<or>
           (\<exists>d. frames w' = [(Suc (frameCounter w), d)] \<and>
                currentVisualizerAnimation w' = Some (Suc (frameCounter w)) \<and>
                frameCounter w' = Suc (frameCounter w))"
    using e1 fr g1(3) by auto
  ultimately show ?thesis
    using v vt g1(2) by auto
qed

lemma visualize_returns: "visualize h w = Returned (world_of (visualize h w))"
  using visualize_summary [of h w] by auto

lemma visualize_same_graph: "same_graph w (world_of (visualize h w))"
  using visualize_summary [of h w] by auto

lemma visualize_quiet: "quiet w (world_of (visualize h w))"
  using visualize_summary [of h w] by auto

lemma visualize_grows: "grows w (world_of (visualize h w))"
  using visualize_quiet by (rule quiet_grows)

lemma visualize_frames:
  "one_loop w \<Longrightarrow>
   frames (world_of (visualize h w)) = [] \<or>
   (\<exists>d. frames (world_of (visualize h w)) = [(Suc (frameCounter w), d)] \<and>
        currentVisualizerAnimation (world_of (visualize h w)) = Some (Suc (frameCounter w)) \<and>
        frameCounter (world_of (visualize h w)) = Suc (frameCounter w))"
  using visualize_summary [of h w] by auto

lemma visualize_one_loop: "one_loop w \<Longrightarrow> one_loop (world_of (visualize h w))"
  using visualize_frames [of w h] by (auto simp: one_loop_def)

lemma same_visual_one_loop: "same_visual w w' \<Longrightarrow> one_loop w \<Longrightarrow> one_loop w'"
  by (simp add: one_loop_def same_visual_def)

lemma one_loop_emit [simp]: "one_loop (emit e w) = one_loop w"
  by (simp add: one_loop_def)

subsection \<open>utils.js and stopTone\<close>

lemma ensureAudioContextActive_cases:
  "ensureAudioContextActive h w =
     (if ctxState w = Suspended \<and> resumeRejects h
      then Threw AudioContextNotResumed (world_of (ensureAudioContextActive h w))
      else Returned (world_of (ensureAudioContextActive h w)))"
  by (simp add: ensureAudioContextActive_eq)

lemma ensureAudioContextActive_trace:
  "trace (world_of (ensureAudioContextActive h w)) =
     trace w @ Enter EnsureAudioContextActive #
       (if ctxState w = Suspended
        then Resume #
          (if resumeRejects h
           then [ConsoleError ''Failed to resume AudioContext:'' (HostError ''resume''),
                 Alert ''Audio playback is blocked. Please interact with the page to enable sound.'']
           else [])
        else [])"
  by (simp add: ensureAudioContextActive_eq alert_def console_error_def)

lemma ensureAudioContextActive_fields [simp]:
  "analyser (world_of (ensureAudioContextActive h w)) = analyser w"
  "nodes (world_of (ensureAudioContextActive h w)) = nodes w"
  "source (world_of (ensureAudioContextActive h w)) = source w"
  "mp3Source (world_of (ensureAudioContextActive h w)) = mp3Source w"
  "mediaElementSourceCreated (world_of (ensureAudioContextActive h w)) = mediaElementSourceCreated w"
  "playerSrc (world_of (ensureAudioContextActive h w)) = playerSrc w"
  "playerPlaying (world_of (ensureAudioContextActive h w)) = playerPlaying w"
  "playerCurrentTime (world_of (ensureAudioContextActive h w)) = playerCurrentTime w"
  "same_visual w (world_of (ensureAudioContextActive h w))"
  "grows w (world_of (ensureAudioContextActive h w))"
  "quiet w (world_of (ensureAudioContextActive h w))"
  by (simp_all add: ensureAudioContextActive_eq alert_def console_error_def same_visual_def
      grows_iff quiet_iff is_producer_event_def)


lemma ensureAnalyserOutput_returns:
  "ensureAnalyserOutput h w = Returned (world_of (ensureAnalyserOutput h w))"
  by (simp add: ensureAnalyserOutput_eq)

lemma ensureAnalyserOutput_trace:
  "\<exists>evs. trace (world_of (ensureAnalyserOutput h w)) = trace w @ Enter EnsureAnalyserOutput # evs \<and>
         \<not> list_ex is_producer_event evs"
  by (simp add: ensureAnalyserOutput_eq alert_def console_error_def is_producer_event_def)

lemma ensureAnalyserOutput_fields [simp]:
  "ctxState (world_of (ensureAnalyserOutput h w)) = ctxState w"
  "nodes (world_of (ensureAnalyserOutput h w)) = nodes w"
  "source (world_of (ensureAnalyserOutput h w)) = source w"
  "mp3Source (world_of (ensureAnalyserOutput h w)) = mp3Source w"
  "mediaElementSourceCreated (world_of (ensureAnalyserOutput h w)) = mediaElementSourceCreated w"
  "playerSrc (world_of (ensureAnalyserOutput h w)) = playerSrc w"
  "playerPlaying (world_of (ensureAnalyserOutput h w)) = playerPlaying w"
  "playerCurrentTime (world_of (ensureAnalyserOutput h w)) = playerCurrentTime w"
  "same_visual w (world_of (ensureAnalyserOutput h w))"
  "grows w (world_of (ensureAnalyserOutput h w))"
  "quiet w (world_of (ensureAnalyserOutput h w))"
  by (simp_all add: ensureAnalyserOutput_eq alert_def console_error_def same_visual_def
      grows_iff quiet_iff is_producer_event_def)

lemma stopTone_returns: "stopTone h w = Returned (world_of (stopTone h w))"
  by (simp add: stopTone_eq)

lemma stopTone_fields [simp]:
  "source (world_of (stopTone h w)) = None"
  "ctxState (world_of (stopTone h w)) = ctxState w"
  "analyser (world_of (stopTone h w)) = analyser w"
  "mp3Source (world_of (stopTone h w)) = mp3Source w"
  "mediaElementSourceCreated (world_of (stopTone h w)) = mediaElementSourceCreated w"
  "playerSrc (world_of (stopTone h w)) = playerSrc w"
  "playerPlaying (world_of (stopTone h w)) = playerPlaying w"
  "playerCurrentTime (world_of (stopTone h w)) = playerCurrentTime w"
  "same_visual w (world_of (stopTone h w))"
  "grows w (world_of (stopTone h w))"
  "length (nodes (world_of (stopTone h w))) = length (nodes w)"
  "map toAnalyser (nodes (world_of (stopTone h w))) = map toAnalyser (nodes w)"
  "map kind (nodes (world_of (stopTone h w))) = map kind (nodes w)"
  "quiet w (world_of (stopTone h w))"
  by (simp_all add: stopTone_eq console_error_def upd_node_def same_visual_def grows_iff
      quiet_iff is_producer_event_def map_update list_update_same_conv split: option.splits)

lemma stopTone_playState:
  "source w = Some n \<Longrightarrow> n < length (nodes w) \<Longrightarrow> \<not> stopThrows h \<Longrightarrow>
   playState (nodes (world_of (stopTone h w)) ! n) = Stopped"
  by (simp add: stopTone_eq upd_node_def)

lemma stopTone_idle:
  "source w = None \<Longrightarrow> stopTone h w = Returned (emit (Enter StopTone) w)"
  by (simp add: stopTone_eq)

subsection \<open>playTone\<close>

lemma startProducer_frame:
  "same_visual w (world_of (startProducer h wv nt f w))"
  "grows w (world_of (startProducer h wv nt f w))"
  "ctxState (world_of (startProducer h wv nt f w)) = ctxState w"
  "analyser (world_of (startProducer h wv nt f w)) = analyser w"
  "mp3Source (world_of (startProducer h wv nt f w)) = mp3Source w"
  "mediaElementSourceCreated (world_of (startProducer h wv nt f w)) = mediaElementSourceCreated w"
  "playerSrc (world_of (startProducer h wv nt f w)) = playerSrc w"
  "playerPlaying (world_of (startProducer h wv nt f w)) = playerPlaying w"
  by (simp_all add: startProducer_def createWhiteNoise_def createPinkNoise_def create_node_def
      node_connect_def node_start_def upd_node_def Let_def same_visual_def grows_iff)

lemma startProducer_throws:
  "startProducer h wv nt f w = Threw e w' \<Longrightarrow> \<exists>m. e = HostError m"
  by (auto simp: startProducer_def createWhiteNoise_def createPinkNoise_def create_node_def
      node_connect_def node_start_def upd_node_def Let_def split: if_splits)

lemma startProducer_ok:
  assumes "\<not> createThrows h" "\<not> connectThrows h" "\<not> startThrows h"
    and "nt = ''none'' \<or> nt = ''white'' \<or> nt = ''pink''"
  shows "\<exists>w' k. startProducer h wv nt f w = Returned w' \<and>
           source w' = Some (length (nodes w)) \<and>
           nodes w' = nodes w @ [\<lparr>kind = k, toAnalyser = True, playState = Started\<rparr>]"
  using assms
  by (auto simp: startProducer_def createWhiteNoise_def createPinkNoise_def create_node_def
      node_connect_def node_start_def upd_node_def Let_def)

lemma playTone_body_unfold:
  assumes "W1 = world_of (ensureAudioContextActive h w)"
    and "W2 = world_of (ensureAnalyserOutput h W1)"
    and "W3 = world_of (stopTone h W2)"
  shows "playTone_body h f w =
     (if ctxState w = Suspended \<and> resumeRejects h then Threw AudioContextNotResumed W1
      else if isNaN f \<or> le_zero f then Threw InvalidFrequency W3
      else
        (case (waveformInput h, noiseTypeInput h) of
           (Some waveform, Some noiseType) \<Rightarrow>
             and_then (startProducer h waveform noiseType f W3) (\<lambda>w. visualize h w)
         | _ \<Rightarrow> Threw SelectionMissing W3))"
proof -
  have a: "ensureAudioContextActive h w =
      (if ctxState w = Suspended \<and> resumeRejects h then Threw AudioContextNotResumed W1
       else Returned W1)"
    unfolding assms(1) by (rule ensureAudioContextActive_cases)
  have b: "ensureAnalyserOutput h W1 = Returned W2"
    unfolding assms(2) by (rule ensureAnalyserOutput_returns)
  have c: "stopTone h W2 = Returned W3"
    unfolding assms(3) by (rule stopTone_returns)
  show ?thesis
    by (simp add: playTone_body_def a b c)
qed

lemma ensured_2 [simp]: "ensured 2 evs"
  by (induction evs) simp_all

lemma world_of_and_then_grows:
  "grows w (world_of r) \<Longrightarrow> (\<And>w1. grows w1 (world_of (k w1))) \<Longrightarrow>
   grows w (world_of (and_then r k))"
  by (cases r) (auto intro: grows_trans)

lemma playTone_catch:
  "playTone h f w =
     (case playTone_body h f w of
        Returned w' \<Rightarrow> Returned w'
      | Threw e w' \<Rightarrow>
          Returned (alert (''Error playing tone: '' @ message e)
                      (console_error ''Error in playTone:'' e w')))"
  by (cases "playTone_body h f w") (simp_all add: playTone_def)

lemma playTone_returns: "playTone h f w = Returned (world_of (playTone h f w))"
  by (simp add: playTone_catch split: outcome.splits)

lemma playTone_grows_body: "grows (world_of (playTone_body h f w)) (world_of (playTone h f w))"
  by (simp add: playTone_catch alert_def console_error_def grows_iff split: outcome.splits)

lemma playTone_rest_grows:
  assumes "W1 = world_of (ensureAudioContextActive h w)"
    and "W2 = world_of (ensureAnalyserOutput h W1)"
    and "W3 = world_of (stopTone h W2)"
    and "\<not> (ctxState w = Suspended \<and> resumeRejects h)"
  shows "grows W3 (world_of (playTone_body h f w))"
proof -
  have sv: "\<And>a b. grows W3 (world_of (and_then (startProducer h a b f W3) (\<lambda>w. visualize h w)))"
    by (rule world_of_and_then_grows) (rule startProducer_frame, rule visualize_grows)
  show ?thesis
    using assms(4) sv
    by (auto simp: playTone_body_unfold [OF assms(1-3)] split: option.splits)
qed

lemma playTone_ensured: "ensured 0 (new_events w (world_of (playTone h f w)))"
proof -
  define W1 where "W1 = world_of (ensureAudioContextActive h w)"
  define W2 where "W2 = world_of (ensureAnalyserOutput h W1)"
  define W3 where "W3 = world_of (stopTone h W2)"
  define W where "W = world_of (playTone h f w)"
  note unfold = playTone_body_unfold [OF W1_def W2_def W3_def, of f]
  have t1: "trace W1 =
     trace w @ Enter EnsureAudioContextActive #
       (if ctxState w = Suspended
        then Resume #
          (if resumeRejects h
           then [ConsoleError ''Failed to resume AudioContext:'' (HostError ''resume''),
                 Alert ''Audio playback is blocked. Please interact with the page to enable sound.'']
           else [])
        else [])"
    unfolding W1_def by (rule ensureAudioContextActive_trace)
  show ?thesis
  proof (cases "ctxState w = Suspended \<and> resumeRejects h")
    case True
    have "playTone h f w =
        Returned (alert (''Error playing tone: '' @ message AudioContextNotResumed)
                    (console_error ''Error in playTone:'' AudioContextNotResumed W1))"
      using True by (simp add: playTone_catch unfold)
    then show ?thesis
      using True t1
      by (simp add: new_events_def alert_def console_error_def is_producer_event_def)
  next
    case False
    obtain ys where t2: "trace W2 = trace W1 @ Enter EnsureAnalyserOutput # ys"
      using ensureAnalyserOutput_trace [of h W1] unfolding W2_def by blast
    have "grows W2 W3"
      unfolding W3_def by simp
    moreover have "grows W3 (world_of (playTone_body h f w))"
      using W1_def W2_def W3_def False by (rule playTone_rest_grows)
    moreover have "grows (world_of (playTone_body h f w)) W"
      unfolding W_def by (rule playTone_grows_body)
    ultimately have "grows W2 W"
      by (blast intro: grows_trans)
    then obtain zs where t3: "trace W = trace W2 @ zs"
      by (auto simp: grows_iff)
    have "new_events w W =
        Enter EnsureAudioContextActive # (if ctxState w = Suspended then [Resume] else []) @
        Enter EnsureAnalyserOutput # ys @ zs"
      using False t1 t2 t3 by (simp add: new_events_def)
    then show ?thesis
      unfolding W_def by (simp add: is_producer_event_def)
  qed
qed

subsection \<open>mp3Handler.js\<close>

lemma connect_and_play_cases:
  "connect_and_play h n w =
     (if connectThrows h then Threw (HostError ''connect'') (emit (Connect n) w)
      else Returned (world_of (connect_and_play h n w)))"
proof (cases "connectThrows h")
  case True
  then show ?thesis
    by (simp add: connect_and_play_def node_connect_def Let_def)
next
  case False
  define w1 where "w1 = upd_node n (\<lambda>x. x\<lparr>toAnalyser := True\<rparr>) (emit (Connect n) w)"
  define w2 where "w2 =
    (if playRejects h
     then alert (''Failed to play MP3: '' @ message (HostError ''play''))
            (console_error ''Error starting playback:'' (HostError ''play'') (emit Play w1))
     else (emit Play w1)\<lparr>playerPlaying := True\<rparr>)"
  have eq: "connect_and_play h n w = visualize h w2"
    using False
    by (simp add: connect_and_play_def node_connect_def player_play_def Let_def w1_def w2_def)
  have "visualize h w2 = Returned (world_of (visualize h w2))"
    by (rule visualize_returns)
  then show ?thesis
    using False by (simp only: eq if_False)
qed

lemma connect_and_play_summary:
  fixes h n w
  defines "W \<equiv> world_of (connect_and_play h n w)"
  shows "\<exists>evs. trace W = trace w @ Connect n # evs \<and>
           list_all (\<lambda>e. is_producer_event e = False) evs \<and>
           (Play \<in> set evs \<longleftrightarrow> \<not> connectThrows h)"
    and "mp3Source W = mp3Source w"
    and "mediaElementSourceCreated W = mediaElementSourceCreated w"
    and "playerSrc W = playerSrc w"
    and "source W = source w"
    and "ctxState W = ctxState w"
    and "length (nodes W) = length (nodes w)"
    and "map kind (nodes W) = map kind (nodes w)"
    and "connectThrows h \<Longrightarrow> same_visual w W \<and> nodes W = nodes w \<and> playerPlaying W = playerPlaying w"
    and "\<not> connectThrows h \<Longrightarrow> n < length (nodes w) \<Longrightarrow> toAnalyser (nodes W ! n)"
    and "\<not> connectThrows h \<Longrightarrow> \<not> playRejects h \<Longrightarrow> playerPlaying W"
    and "one_loop w \<Longrightarrow> one_loop W"
proof -
  define w1 where "w1 = upd_node n (\<lambda>x. x\<lparr>toAnalyser := True\<rparr>) (emit (Connect n) w)"
  define w2 where "w2 =
    (if playRejects h
     then alert (''Failed to play MP3: '' @ message (HostError ''play''))
            (console_error ''Error starting playback:'' (HostError ''play'') (emit Play w1))
     else (emit Play w1)\<lparr>playerPlaying := True\<rparr>)"
  have W: "W = (if connectThrows h then emit (Connect n) w else world_of (visualize h w2))"
    by (simp add: W_def connect_and_play_def node_connect_def player_play_def Let_def
        w1_def w2_def)
  have t2: "\<exists>evs. trace w2 = trace w @ Connect n # Play # evs \<and>
      list_all (\<lambda>e. is_producer_event e = False) evs"
    by (simp add: w2_def w1_def upd_node_def alert_def console_error_def is_producer_event_def)
  have f2: "mp3Source w2 = mp3Source w" "mediaElementSourceCreated w2 = mediaElementSourceCreated w"
    "playerSrc w2 = playerSrc w" "source w2 = source w" "ctxState w2 = ctxState w"
    "length (nodes w2) = length (nodes w)"
    "map kind (nodes w2) = map kind (nodes w)" "same_visual w w2"
    "n < length (nodes w) \<Longrightarrow> toAnalyser (nodes w2 ! n)"
    "\<not> playRejects h \<Longrightarrow> playerPlaying w2"
    by (simp_all add: w2_def w1_def upd_node_def alert_def console_error_def same_visual_def
        map_update list_update_same_conv)
  define V where "V = world_of (visualize h w2)"
  have sg: "same_graph w2 V" and q: "quiet w2 V"
    unfolding V_def by (rule visualize_same_graph, rule visualize_quiet)
  obtain evs2 where t3: "trace V = trace w2 @ evs2"
    "list_all (\<lambda>e. is_producer_event e = False) evs2"
    using q by (auto simp: quiet_iff)
  show "\<exists>evs. trace W = trace w @ Connect n # evs \<and>
           list_all (\<lambda>e. is_producer_event e = False) evs \<and>
           (Play \<in> set evs \<longleftrightarrow> \<not> connectThrows h)"
    using t2 t3 by (auto simp: W V_def [symmetric] is_producer_event_def)
  show "mp3Source W = mp3Source w" "mediaElementSourceCreated W = mediaElementSourceCreated w"
    "playerSrc W = playerSrc w" "source W = source w" "ctxState W = ctxState w"
    "length (nodes W) = length (nodes w)"
    "map kind (nodes W) = map kind (nodes w)"
    using f2 sg by (simp_all add: W V_def [symmetric] same_graph_def)
  show "connectThrows h \<Longrightarrow> same_visual w W \<and> nodes W = nodes w \<and> playerPlaying W = playerPlaying w"
    by (simp add: W)
  show "\<not> connectThrows h \<Longrightarrow> n < length (nodes w) \<Longrightarrow> toAnalyser (nodes W ! n)"
    using f2 sg by (simp add: W V_def [symmetric] same_graph_def)
  show "\<not> connectThrows h \<Longrightarrow> \<not> playRejects h \<Longrightarrow> playerPlaying W"
    using f2 sg by (simp add: W V_def [symmetric] same_graph_def)
  show "one_loop w \<Longrightarrow> one_loop W"
  proof -
    assume ol: "one_loop w"
    then have "one_loop w2"
      using f2(8) by (rule same_visual_one_loop [rotated])
    then have "one_loop V"
      unfolding V_def by (rule visualize_one_loop)
    then show ?thesis
      using ol by (simp add: W V_def)
  qed
qed

lemma setupAudioNodes_body_unfold:
  assumes "W1 = world_of (ensureAudioContextActive h w)"
    and "W2 = world_of (ensureAnalyserOutput h W1)"
  shows "setupAudioNodes_body h w =
     (if ctxState w = Suspended \<and> resumeRejects h then Threw AudioContextNotResumed W1
      else if playerSrc w = [] then Returned (emit (ConsoleText ''Audio player has no source'') W2)
      else if \<not> mediaElementSourceCreated w then
        (if createThrows h then Threw (HostError ''create'') (emit CreateMediaElementSource W2)
         else connect_and_play h (length (nodes w))
                ((emit CreateMediaElementSource W2)
                   \<lparr>nodes := nodes w @
                      [\<lparr>kind = MediaElementSource, toAnalyser = False, playState = Unstarted\<rparr>],
                    mp3Source := Some (length (nodes w)),
                    mediaElementSourceCreated := True\<rparr>))
      else
        (case mp3Source w of
           Some existing \<Rightarrow> connect_and_play h existing W2
         | None \<Rightarrow>
             Returned (emit (ConsoleText ''MediaElementSource was created but is null'') W2)))"
proof -
  have a: "ensureAudioContextActive h w =
      (if ctxState w = Suspended \<and> resumeRejects h then Threw AudioContextNotResumed W1
       else Returned W1)"
    unfolding assms(1) by (rule ensureAudioContextActive_cases)
  have b: "ensureAnalyserOutput h W1 = Returned W2"
    unfolding assms(2) by (rule ensureAnalyserOutput_returns)
  have f: "playerSrc W2 = playerSrc w" "mediaElementSourceCreated W2 = mediaElementSourceCreated w"
    "mp3Source W2 = mp3Source w" "nodes W2 = nodes w"
    by (simp_all add: assms)
  show ?thesis
    by (simp add: setupAudioNodes_body_def a b f create_node_def Let_def)
qed


lemma setupAudioNodes_catch:
  "setupAudioNodes h w =
     (case setupAudioNodes_body h w of
        Returned w' \<Rightarrow> Returned w'
      | Threw e w' \<Rightarrow>
          Returned (alert (''Error setting up audio nodes: '' @ message e)
                      (console_error ''Error in setupAudioNodes:'' e w')))"
  by (cases "setupAudioNodes_body h w") (simp_all add: setupAudioNodes_def)

lemma setupAudioNodes_returns:
  "setupAudioNodes h w = Returned (world_of (setupAudioNodes h w))"
  by (simp add: setupAudioNodes_catch split: outcome.splits)

lemma setupAudioNodes_grows_body:
  "grows (world_of (setupAudioNodes_body h w)) (world_of (setupAudioNodes h w))"
  by (simp add: setupAudioNodes_catch alert_def console_error_def grows_iff split: outcome.splits)

lemma connect_and_play_grows: "grows w (world_of (connect_and_play h n w))"
  using connect_and_play_summary(1) [of h n w] by (auto simp: grows_iff)

lemma setupAudioNodes_rest_grows:
  assumes "W1 = world_of (ensureAudioContextActive h w)"
    and "W2 = world_of (ensureAnalyserOutput h W1)"
    and "\<not> (ctxState w = Suspended \<and> resumeRejects h)"
  shows "grows W2 (world_of (setupAudioNodes_body h w))"
proof -
  let ?w3 = "(emit CreateMediaElementSource W2)
                   \<lparr>nodes := nodes w @
                      [\<lparr>kind = MediaElementSource, toAnalyser = False, playState = Unstarted\<rparr>],
                    mp3Source := Some (length (nodes w)),
                    mediaElementSourceCreated := True\<rparr>"
  have "grows W2 ?w3"
    by (simp add: grows_iff)
  moreover have "grows ?w3 (world_of (connect_and_play h (length (nodes w)) ?w3))"
    by (rule connect_and_play_grows)
  ultimately have c: "grows W2 (world_of (connect_and_play h (length (nodes w)) ?w3))"
    by (rule grows_trans)
  show ?thesis
    using assms(3) c connect_and_play_grows [of W2 h]
    by (auto simp: setupAudioNodes_body_unfold [OF assms(1,2)] split: option.splits)
qed

lemma setupAudioNodes_ensured: "ensured 0 (new_events w (world_of (setupAudioNodes h w)))"
proof -
  define W1 where "W1 = world_of (ensureAudioContextActive h w)"
  define W2 where "W2 = world_of (ensureAnalyserOutput h W1)"
  define W where "W = world_of (setupAudioNodes h w)"
  note unfold = setupAudioNodes_body_unfold [OF W1_def W2_def]
  have t1: "trace W1 =
     trace w @ Enter EnsureAudioContextActive #
       (if ctxState w = Suspended
        then Resume #
          (if resumeRejects h
           then [ConsoleError ''Failed to resume AudioContext:'' (HostError ''resume''),
                 Alert ''Audio playback is blocked. Please interact with the page to enable sound.'']
           else [])
        else [])"
    unfolding W1_def by (rule ensureAudioContextActive_trace)
  show ?thesis
  proof (cases "ctxState w = Suspended \<and> resumeRejects h")
    case True
    have "setupAudioNodes h w =
        Returned (alert (''Error setting up audio nodes: '' @ message AudioContextNotResumed)
                    (console_error ''Error in setupAudioNodes:'' AudioContextNotResumed W1))"
      using True by (simp add: setupAudioNodes_catch unfold)
    then show ?thesis
      using True t1
      by (simp add: new_events_def alert_def console_error_def is_producer_event_def)
  next
    case False
    obtain ys where t2: "trace W2 = trace W1 @ Enter EnsureAnalyserOutput # ys"
      using ensureAnalyserOutput_trace [of h W1] unfolding W2_def by blast
    have "grows W2 (world_of (setupAudioNodes_body h w))"
      using W1_def W2_def False by (rule setupAudioNodes_rest_grows)
    moreover have "grows (world_of (setupAudioNodes_body h w)) W"
      unfolding W_def by (rule setupAudioNodes_grows_body)
    ultimately have "grows W2 W"
      by (rule grows_trans)
    then obtain zs where t3: "trace W = trace W2 @ zs"
      by (auto simp: grows_iff)
    have "new_events w W =
        Enter EnsureAudioContextActive # (if ctxState w = Suspended then [Resume] else []) @
        Enter EnsureAnalyserOutput # ys @ zs"
      using False t1 t2 t3 by (simp add: new_events_def)
    then show ?thesis
      unfolding W_def by (simp add: is_producer_event_def)
  qed
qed

lemma stopMp3_eq:
  "stopMp3 h w =
     Returned
       (let wc = (if truthy (currentVisualizerAnimation w)
                  then cancelAnimationFrame (handle_of (currentVisualizerAnimation w)) w
                  else w)
        in case mp3Source w of
             None \<Rightarrow> wc
           | Some n \<Rightarrow>
               (if disconnectThrows h
                then console_error ''Error disconnecting mp3Source:'' (HostError ''disconnect'')
                       (emit (Disconnect n) ((player_pause wc)\<lparr>playerCurrentTime := 0\<rparr>))
                else upd_node n (\<lambda>x. x\<lparr>toAnalyser := False\<rparr>)
                       (emit (Disconnect n) ((player_pause wc)\<lparr>playerCurrentTime := 0\<rparr>)))
               \<lparr>mp3Source := None\<rparr>)"
  by (simp add: stopMp3_def node_disconnect_def cancelAnimationFrame_def Let_def
      split: option.splits)

lemma stopMp3_returns: "stopMp3 h w = Returned (world_of (stopMp3 h w))"
  by (simp add: stopMp3_eq)

lemma stopMp3_fields [simp]:
  "mp3Source (world_of (stopMp3 h w)) = None"
  "mediaElementSourceCreated (world_of (stopMp3 h w)) = mediaElementSourceCreated w"
  "playerSrc (world_of (stopMp3 h w)) = playerSrc w"
  "source (world_of (stopMp3 h w)) = source w"
  "ctxState (world_of (stopMp3 h w)) = ctxState w"
  "length (nodes (world_of (stopMp3 h w))) = length (nodes w)"
  "visualizerType (world_of (stopMp3 h w)) = visualizerType w"
  "frameCounter (world_of (stopMp3 h w)) = frameCounter w"
  "currentVisualizerAnimation (world_of (stopMp3 h w)) = currentVisualizerAnimation w"
  by (simp_all add: stopMp3_eq cancelAnimationFrame_def player_pause_def console_error_def
      upd_node_def Let_def split: option.splits)

lemma stopMp3_frames:
  "frames (world_of (stopMp3 h w)) =
     (if truthy (currentVisualizerAnimation w)
      then filter (\<lambda>p. fst p \<noteq> handle_of (currentVisualizerAnimation w)) (frames w)
      else frames w)"
  by (simp add: stopMp3_eq cancelAnimationFrame_def player_pause_def console_error_def
      upd_node_def Let_def split: option.splits)

lemma stopMp3_one_loop: "one_loop w \<Longrightarrow> one_loop (world_of (stopMp3 h w))"
  using one_loop_cancel [of w] by (simp add: one_loop_def stopMp3_frames)

lemma stopMp3_disconnects:
  "mp3Source w = Some n \<Longrightarrow> n < length (nodes w) \<Longrightarrow> \<not> disconnectThrows h \<Longrightarrow>
   toAnalyser (nodes (world_of (stopMp3 h w)) ! n) = False \<and>
   playerPlaying (world_of (stopMp3 h w)) = False"
  by (simp add: stopMp3_eq cancelAnimationFrame_def player_pause_def upd_node_def Let_def)

lemma clearMp3_eq:
  "clearMp3 h w =
     Returned
       ((case mp3Source w of
           None \<Rightarrow>
             w\<lparr>playerSrc := emptySrcReads h, playerPlaying := False, playerCurrentTime := 0\<rparr>
         | Some n \<Rightarrow>
             (if disconnectThrows h
              then console_error ''Error disconnecting mp3Source:'' (HostError ''disconnect'')
                     (emit (Disconnect n)
                        (w\<lparr>playerSrc := emptySrcReads h, playerPlaying := False,
                           playerCurrentTime := 0\<rparr>))
              else upd_node n (\<lambda>x. x\<lparr>toAnalyser := False\<rparr>)
                     (emit (Disconnect n)
                        (w\<lparr>playerSrc := emptySrcReads h, playerPlaying := False,
                           playerCurrentTime := 0\<rparr>)))
             \<lparr>mp3Source := None\<rparr>)
        \<lparr>mediaElementSourceCreated := False\<rparr>)"
  by (simp add: clearMp3_def node_disconnect_def Let_def split: option.splits)

lemma clearMp3_returns: "clearMp3 h w = Returned (world_of (clearMp3 h w))"
  by (simp add: clearMp3_eq)

lemma clearMp3_fields [simp]:
  "mp3Source (world_of (clearMp3 h w)) = None"
  "mediaElementSourceCreated (world_of (clearMp3 h w)) = False"
  "playerSrc (world_of (clearMp3 h w)) = emptySrcReads h"
  "source (world_of (clearMp3 h w)) = source w"
  "ctxState (world_of (clearMp3 h w)) = ctxState w"
  "length (nodes (world_of (clearMp3 h w))) = length (nodes w)"
  "same_visual w (world_of (clearMp3 h w))"
  by (simp_all add: clearMp3_eq console_error_def upd_node_def same_visual_def
      split: option.splits)

lemma setupAudioNodes_null_source:
  assumes "mediaElementSourceCreated w" and "mp3Source w = None" and "playerSrc w \<noteq> []"
  shows "\<not> propagates (setupAudioNodes h w) \<and>
         quiet w (world_of (setupAudioNodes h w)) \<and>
         Play \<notin> set (new_events w (world_of (setupAudioNodes h w))) \<and>
         nodes (world_of (setupAudioNodes h w)) = nodes w \<and>
         playerPlaying (world_of (setupAudioNodes h w)) = playerPlaying w \<and>
         mp3Source (world_of (setupAudioNodes h w)) = None \<and>
         mediaElementSourceCreated (world_of (setupAudioNodes h w)) \<and>
         same_visual w (world_of (setupAudioNodes h w)) \<and>
         (\<not> (ctxState w = Suspended \<and> resumeRejects h) \<longrightarrow>
            \<not> propagates (setupAudioNodes_body h w) \<and>
            last (trace (world_of (setupAudioNodes h w))) =
              ConsoleText ''MediaElementSource was created but is null'')"
proof -
  define W1 where "W1 = world_of (ensureAudioContextActive h w)"
  define W2 where "W2 = world_of (ensureAnalyserOutput h W1)"
  note unfold = setupAudioNodes_body_unfold [OF W1_def W2_def]
  have q1: "quiet w W1" and v1: "same_visual w W1"
    unfolding W1_def by simp_all
  have q2: "quiet W1 W2" and v2: "same_visual W1 W2"
    unfolding W2_def by simp_all
  have q: "quiet w W2"
    using q1 q2 by (rule quiet_trans)
  have v: "same_visual w W2"
    using v1 v2 by (rule same_visual_trans)
  have f1: "nodes W1 = nodes w" "playerPlaying W1 = playerPlaying w" "mp3Source W1 = mp3Source w"
    "mediaElementSourceCreated W1 = mediaElementSourceCreated w"
    unfolding W1_def by simp_all
  have f2: "nodes W2 = nodes w" "playerPlaying W2 = playerPlaying w" "mp3Source W2 = mp3Source w"
    "mediaElementSourceCreated W2 = mediaElementSourceCreated w"
    unfolding W2_def by (simp_all add: f1)
  have np1: "Play \<notin> set (new_events w W1)"
    using ensureAudioContextActive_trace [of h w] by (simp add: W1_def new_events_def)
  have ret: "\<not> propagates (setupAudioNodes h w)"
    by (subst setupAudioNodes_returns) simp
  show ?thesis
  proof (cases "ctxState w = Suspended \<and> resumeRejects h")
    case True
    have W: "world_of (setupAudioNodes h w) =
        alert (''Error setting up audio nodes: '' @ message AudioContextNotResumed)
          (console_error ''Error in setupAudioNodes:'' AudioContextNotResumed W1)"
      using True by (simp add: setupAudioNodes_catch unfold)
    obtain evs where e: "trace W1 = trace w @ evs" "list_all (\<lambda>e. is_producer_event e = False) evs"
      "Play \<notin> set evs"
      using q1 np1 by (auto simp: quiet_iff new_events_def)
    have "quiet w (world_of (setupAudioNodes h w))"
      using e by (simp add: W quiet_iff alert_def console_error_def is_producer_event_def)
    moreover have "Play \<notin> set (new_events w (world_of (setupAudioNodes h w)))"
      using e by (simp add: W new_events_def alert_def console_error_def)
    ultimately show ?thesis
      using True ret f1 assms v1
      by (simp add: W alert_def console_error_def same_visual_def)
  next
    case False
    have body: "setupAudioNodes_body h w =
        Returned (emit (ConsoleText ''MediaElementSource was created but is null'') W2)"
      using False assms by (simp add: unfold)
    have W: "world_of (setupAudioNodes h w) =
        emit (ConsoleText ''MediaElementSource was created but is null'') W2"
      by (simp add: setupAudioNodes_catch body)
    obtain ys where t2: "trace W2 = trace W1 @ Enter EnsureAnalyserOutput # ys"
      using ensureAnalyserOutput_trace [of h W1] unfolding W2_def by blast
    have np2: "Play \<notin> set (new_events W1 W2)"
      unfolding W2_def
      by (simp add: ensureAnalyserOutput_eq new_events_def alert_def console_error_def)
    obtain evs where e: "trace W2 = trace w @ evs" "list_all (\<lambda>e. is_producer_event e = False) evs"
      using q by (auto simp: quiet_iff)
    have "new_events w W2 = new_events w W1 @ new_events W1 W2"
      using q1 q2 by (intro new_events_trans quiet_grows)
    then have "Play \<notin> set (new_events w W2)"
      using np1 np2 by simp
    then have "Play \<notin> set evs"
      using e by (simp add: new_events_def)
    then have "Play \<notin> set (new_events w (world_of (setupAudioNodes h w)))"
      using e by (simp add: W new_events_def)
    moreover have "quiet w (world_of (setupAudioNodes h w))"
      using e by (simp add: W quiet_iff is_producer_event_def)
    ultimately show ?thesis
      using False ret f2 assms v
      by (simp add: W body same_visual_def)
  qed
qed

lemma creations_simps [simp]:
  "creations [] = 0"
  "creations (xs @ ys) = creations xs + creations ys"
  "creations (e # xs) = (if e = CreateMediaElementSource then Suc (creations xs) else creations xs)"
  by (simp_all add: creations_def)


lemma setupAudioNodes_after_body:
  fixes h w
  defines "B \<equiv> world_of (setupAudioNodes_body h w)"
  defines "W \<equiv> world_of (setupAudioNodes h w)"
  shows "\<exists>zs. trace W = trace B @ zs \<and> list_all (\<lambda>e. is_producer_event e = False) zs"
    and "mp3Source W = mp3Source B"
    and "mediaElementSourceCreated W = mediaElementSourceCreated B"
    and "nodes W = nodes B"
    and "playerSrc W = playerSrc B"
    and "playerPlaying W = playerPlaying B"
    and "ctxState W = ctxState B"
    and "same_visual B W"
  unfolding B_def W_def
  by (simp_all add: setupAudioNodes_catch alert_def console_error_def is_producer_event_def
      same_visual_def split: outcome.splits)








lemma one_loop_frames:
  "one_loop w \<Longrightarrow> map_of (frames w) n = Some d \<Longrightarrow> frames w = [(n, d)]"
  by (cases "frames w") (auto simp: one_loop_def split: if_splits)

lemma run_frame_idle:
  "map_of (frames w) n = None \<Longrightarrow> run_frame h n w = Returned w"
  by (simp add: run_frame_def)

lemma run_frame_summary:
  assumes "one_loop w" and "map_of (frames w) n = Some d"
  shows "\<exists>w'. run_frame h n w = Returned w' \<and> same_graph w w' \<and>
           visualizerType w' = visualizerType w \<and>
           frames w' = (if renderThrows h then [] else [(Suc (frameCounter w), d)]) \<and>
           currentVisualizerAnimation w' = Some (Suc (frameCounter w)) \<and>
           frameCounter w' = Suc (frameCounter w)"
proof -
  have fr: "frames w = [(n, d)]"
    using assms by (rule one_loop_frames)
  define w0 where "w0 = w\<lparr>frames := filter (\<lambda>p. fst p \<noteq> n) (frames w)\<rparr>"
  have w0: "frames w0 = []" "frameCounter w0 = frameCounter w" "same_graph w w0"
    "visualizerType w0 = visualizerType w"
    by (simp_all add: w0_def fr same_graph_def)
  have run: "run_frame h n w = draw d h w0"
    using assms(2) by (simp add: run_frame_def w0_def)
  obtain w' where d: "draw d h w0 = Returned w'" and sg: "same_graph w0 w'"
    and rest: "visualizerType w' = visualizerType w0"
      "frames w' = (if renderThrows h
                    then filter (\<lambda>p. fst p \<noteq> Suc (frameCounter w0)) (frames w0)
                    else frames w0 @ [(Suc (frameCounter w0), d)])"
      "currentVisualizerAnimation w' = Some (Suc (frameCounter w0))"
      "frameCounter w' = Suc (frameCounter w0)"
    using draw_summary [of d h w0] by blast
  have "same_graph w w'"
    using w0(3) sg by (rule same_graph_trans)
  then show ?thesis
    using run d rest w0 by simp
qed

lemma run_frame_returns: "run_frame h n w = Returned (world_of (run_frame h n w))"
  by (simp add: run_frame_def draw_eq split: option.splits)

lemma run_frame_one_loop:
  assumes "one_loop w"
  shows "one_loop (world_of (run_frame h n w))"
proof (cases "map_of (frames w) n")
  case None
  then show ?thesis
    using assms by (simp add: run_frame_idle)
next
  case (Some d)
  then show ?thesis
    using run_frame_summary [OF assms Some, of h] by (auto simp: one_loop_def)
qed

lemma playTone_one_loop:
  assumes "one_loop w"
  shows "one_loop (world_of (playTone h f w))"
proof -
  define W1 where "W1 = world_of (ensureAudioContextActive h w)"
  define W2 where "W2 = world_of (ensureAnalyserOutput h W1)"
  define W3 where "W3 = world_of (stopTone h W2)"
  note unfold = playTone_body_unfold [OF W1_def W2_def W3_def, of f]
  have o1: "one_loop W1"
    unfolding W1_def using assms by (rule same_visual_one_loop [rotated]) simp
  have o2: "one_loop W2"
    unfolding W2_def using o1 by (rule same_visual_one_loop [rotated]) simp
  have o3: "one_loop W3"
    unfolding W3_def using o2 by (rule same_visual_one_loop [rotated]) simp
  have sp: "one_loop (world_of (and_then (startProducer h a b f W3) (\<lambda>w. visualize h w)))" for a b
  proof (cases "startProducer h a b f W3")
    case (Returned w4)
    have "same_visual W3 w4"
      using startProducer_frame(1) [of W3 h a b f] by (simp add: Returned)
    then have "one_loop w4"
      using o3 by (rule same_visual_one_loop)
    then show ?thesis
      by (simp add: Returned visualize_one_loop)
  next
    case (Threw e w4)
    have "same_visual W3 w4"
      using startProducer_frame(1) [of W3 h a b f] by (simp add: Threw)
    then show ?thesis
      using o3 by (simp add: Threw same_visual_one_loop)
  qed
  have "one_loop (world_of (playTone_body h f w))"
    using o1 o3 sp by (auto simp: unfold split: option.splits)
  then show ?thesis
    by (cases "playTone_body h f w") (simp_all add: playTone_catch alert_def console_error_def)
qed

lemma setupAudioNodes_one_loop:
  assumes "one_loop w"
  shows "one_loop (world_of (setupAudioNodes h w))"
proof -
  define W1 where "W1 = world_of (ensureAudioContextActive h w)"
  define W2 where "W2 = world_of (ensureAnalyserOutput h W1)"
  note unfold = setupAudioNodes_body_unfold [OF W1_def W2_def]
  have o1: "one_loop W1"
    unfolding W1_def using assms by (rule same_visual_one_loop [rotated]) simp
  have o2: "one_loop W2"
    unfolding W2_def using o1 by (rule same_visual_one_loop [rotated]) simp
  have cp: "one_loop (world_of (connect_and_play h n W2))" for n
    using o2 by (rule connect_and_play_summary)
  let ?w3 = "(emit CreateMediaElementSource W2)
                   \<lparr>nodes := nodes w @
                      [\<lparr>kind = MediaElementSource, toAnalyser = False, playState = Unstarted\<rparr>],
                    mp3Source := Some (length (nodes w)),
                    mediaElementSourceCreated := True\<rparr>"
  have "one_loop ?w3"
    using o2 by (simp add: one_loop_def)
  then have cp3: "one_loop (world_of (connect_and_play h (length (nodes w)) ?w3))"
    by (rule connect_and_play_summary)
  have "one_loop (world_of (setupAudioNodes_body h w))"
    using o1 o2 cp cp3 by (auto simp: unfold split: option.splits)
  then show ?thesis
    using same_visual_one_loop [OF setupAudioNodes_after_body(8) [of h w]] by simp
qed

lemma reachable_one_loop: "reachable w \<Longrightarrow> one_loop w"
proof (induction rule: reachable.induct)
  case (loaded st)
  show ?case by (simp add: one_loop_def initial_world_def)
next
  case (play_tone w h freq)
  then show ?case by (simp add: playTone_one_loop)
next
  case (stop_tone w h)
  then show ?case by (simp add: same_visual_one_loop [of w])
next
  case (upload w h url)
  have "same_visual w (world_of (upload h url w))"
    by (simp add: upload_def load_file_def ensureAudioContextActive_eq alert_def console_error_def
        same_visual_def)
  then show ?case
    using upload.IH by (rule same_visual_one_loop)
next
  case (host w st playing t)
  then show ?case by (simp add: one_loop_def)
next
  case (loaded_data w h)
  then show ?case by (simp add: setupAudioNodes_one_loop)
next
  case (stop_mp3 w h)
  then show ?case by (simp add: stopMp3_one_loop)
next
  case (clear_mp3 w h)
  then show ?case by (simp add: same_visual_one_loop [of w])
next
  case (select w h v)
  then have "one_loop (select_visualizer v w)"
    by (simp add: one_loop_def select_visualizer_def)
  then show ?case by (rule visualize_one_loop)
next
  case (frame w h n)
  then show ?case by (simp add: run_frame_one_loop)
qed

section \<open>Concrete runs\<close>

lemmas prims = and_then_def try_catch_def try_finally_def emit_def console_error_def alert_def
  ctx_resume_def analyser_connect_destination_def upd_node_def create_node_def node_connect_def
  node_disconnect_def node_start_def node_stop_def player_play_def player_pause_def
  requestAnimationFrame_def cancelAnimationFrame_def render_def truthy_def handle_of_def

lemmas ops = ensureAudioContextActive_def ensureAnalyserOutput_def draw_def start_loop_def
  drawBarGraph_def drawKaleidoscope_def drawKaleidoscopeB_def visualize_def run_frame_def
  createWhiteNoise_def createPinkNoise_def stopTone_def playTone_body_def playTone_def
  connect_and_play_def setupAudioNodes_body_def setupAudioNodes_def stopMp3_def clearMp3_def
  startProducer_def

lemmas concrete = prims ops default_host_def blocking_host_def failing_canvas_host_def
  refusing_host_def initial_world_def load_file_def
  select_visualizer_def Let_def isNaN_def le_zero_def message_def

lemma tone_playing_eq:
  "tone_playing =
     \<lparr>ctxState = Running,
      analyser = Some \<lparr>fftSize = 2048, toDestination = True\<rparr>,
      nodes = [\<lparr>kind = Oscillator ''sine'' (Finite 440), toAnalyser = True,
                playState = Started\<rparr>],
      source = Some 0, mp3Source = None, mediaElementSourceCreated = False,
      playerSrc = [], playerPlaying = False, playerCurrentTime = 0,
      currentVisualizerAnimation = Some 1, visualizerType = ''bar'',
      frames = [(1, Bar)], frameCounter = 1,
      trace =
        [Enter EnsureAudioContextActive, Enter EnsureAnalyserOutput, ConnectDestination,
         Enter StopTone, CreateOscillator, Connect 0, Start 0,
         Enter Visualize, RequestFrame 1, Render Bar]\<rparr>"
  by (simp add: tone_playing_def concrete)

lemma media_playing_eq:
  "media_playing =
     \<lparr>ctxState = Running,
      analyser = Some \<lparr>fftSize = 2048, toDestination = True\<rparr>,
      nodes = [\<lparr>kind = MediaElementSource, toAnalyser = True, playState = Unstarted\<rparr>],
      source = None, mp3Source = Some 0, mediaElementSourceCreated = True,
      playerSrc = ''blob:a'', playerPlaying = True, playerCurrentTime = 0,
      currentVisualizerAnimation = Some 1, visualizerType = ''bar'',
      frames = [(1, Bar)], frameCounter = 1,
      trace =
        [Enter EnsureAudioContextActive, Enter EnsureAnalyserOutput, ConnectDestination,
         CreateMediaElementSource, Connect 0, Play,
         Enter Visualize, RequestFrame 1, Render Bar]\<rparr>"
  by (simp add: media_playing_def concrete)

section \<open>The claims about the tone generator\<close>

lemma playTone_body_throws:
  assumes "playTone_body h f w = Threw e w1"
    and "W1 = world_of (ensureAudioContextActive h w)"
    and "W2 = world_of (ensureAnalyserOutput h W1)"
    and "W3 = world_of (stopTone h W2)"
  shows "(e = AudioContextNotResumed \<and> w1 = W1) \<or>
         (e = InvalidFrequency \<and> w1 = W3) \<or>
         (e = SelectionMissing \<and> w1 = W3) \<or>
         (\<exists>m a b. e = HostError m \<and> startProducer h a b f W3 = Threw e w1)"
proof -
  have sp: "and_then (startProducer h a b f W3) (\<lambda>w. visualize h w) = Threw e w1 \<Longrightarrow>
      \<exists>m. e = HostError m \<and> startProducer h a b f W3 = Threw e w1" for a b
  proof (cases "startProducer h a b f W3")
    case (Returned w4)
    assume "and_then (startProducer h a b f W3) (\<lambda>w. visualize h w) = Threw e w1"
    then have "visualize h w4 = Threw e w1"
      by (simp add: Returned)
    then show ?thesis
      using visualize_returns [of h w4] by simp
  next
    case (Threw e' w4)
    assume "and_then (startProducer h a b f W3) (\<lambda>w. visualize h w) = Threw e w1"
    then have "e' = e" "w4 = w1"
      by (simp_all add: Threw)
    then show ?thesis
      using Threw startProducer_throws [of h a b f W3 e w1] by simp
  qed
  show ?thesis
    using assms(1) sp
    by (auto simp: playTone_body_unfold [OF assms(2-4)] split: if_splits option.splits)
qed

lemma playTone_invalid:
  assumes "isNaN f \<or> le_zero f" and "\<not> (ctxState w = Suspended \<and> resumeRejects h)"
    and "W1 = world_of (ensureAudioContextActive h w)"
    and "W2 = world_of (ensureAnalyserOutput h W1)"
    and "W3 = world_of (stopTone h W2)"
  shows "playTone_body h f w = Threw InvalidFrequency W3"
  by (simp only: playTone_body_unfold [OF assms(3-5)] if_not_P [OF assms(2)] if_P [OF assms(1)])

lemma pre_validation_state:
  assumes "W1 = world_of (ensureAudioContextActive h w)"
    and "W2 = world_of (ensureAnalyserOutput h W1)"
    and "W3 = world_of (stopTone h W2)"
  shows "source W3 = None" "length (nodes W3) = length (nodes w)"
    "map kind (nodes W3) = map kind (nodes w)"
    "map toAnalyser (nodes W3) = map toAnalyser (nodes w)"
    "same_visual w W3"
    "source w = Some n \<Longrightarrow> n < length (nodes w) \<Longrightarrow> \<not> stopThrows h \<Longrightarrow>
       playState (nodes W3 ! n) = Stopped"
    "same_visual w W1" "source W1 = source w" "nodes W1 = nodes w"
proof -
  have s1: "same_visual w W1" and s2: "same_visual W1 W2" and s3: "same_visual W2 W3"
    by (simp_all add: assms)
  show "same_visual w W3"
    using s1 s2 s3 by (blast intro: same_visual_trans)
  show "same_visual w W1"
    by (rule s1)
  have n: "nodes W2 = nodes w" "source W2 = source w"
    by (simp_all add: assms)
  show "source W3 = None" "length (nodes W3) = length (nodes w)"
    "map kind (nodes W3) = map kind (nodes w)"
    "map toAnalyser (nodes W3) = map toAnalyser (nodes w)"
    using n by (simp_all add: assms(3))
  show "source w = Some n \<Longrightarrow> n < length (nodes w) \<Longrightarrow> \<not> stopThrows h \<Longrightarrow>
       playState (nodes W3 ! n) = Stopped"
    using n stopTone_playState [of W2 n h] by (simp add: assms(3))
  show "source W1 = source w" "nodes W1 = nodes w"
    by (simp_all add: assms(1))
qed

lemma playTone_starts:
  assumes "\<not> isNaN f" and "\<not> le_zero f"
    and "waveformInput h = Some wv" and "noiseTypeInput h = Some nt"
    and "nt = ''none'' \<or> nt = ''white'' \<or> nt = ''pink''"
    and "\<not> (ctxState w = Suspended \<and> resumeRejects h)"
    and "\<not> createThrows h" and "\<not> connectThrows h" and "\<not> startThrows h"
  shows "\<exists>k. source (world_of (playTone h f w)) = Some (length (nodes w)) \<and>
           length (nodes (world_of (playTone h f w))) = Suc (length (nodes w)) \<and>
           nodes (world_of (playTone h f w)) ! length (nodes w) =
             \<lparr>kind = k, toAnalyser = True, playState = Started\<rparr>"
proof -
  define W1 where "W1 = world_of (ensureAudioContextActive h w)"
  define W2 where "W2 = world_of (ensureAnalyserOutput h W1)"
  define W3 where "W3 = world_of (stopTone h W2)"
  note pre = pre_validation_state [OF W1_def W2_def W3_def]
  have ok: "\<not> (isNaN f \<or> le_zero f)"
    using assms(1,2) by simp
  have body: "playTone_body h f w = and_then (startProducer h wv nt f W3) (\<lambda>w. visualize h w)"
    by (simp only: playTone_body_unfold [OF W1_def W2_def W3_def] if_not_P [OF assms(6)]
        if_not_P [OF ok] assms(3,4) prod.case option.case)
  obtain w4 k where sp: "startProducer h wv nt f W3 = Returned w4"
    and s4: "source w4 = Some (length (nodes W3))"
    and n4: "nodes w4 = nodes W3 @ [\<lparr>kind = k, toAnalyser = True, playState = Started\<rparr>]"
    using startProducer_ok [OF assms(7,8,9,5), of wv f W3] by blast
  define V where "V = world_of (visualize h w4)"
  have v: "visualize h w4 = Returned V"
    unfolding V_def by (rule visualize_returns)
  have sg: "same_graph w4 V"
    unfolding V_def by (rule visualize_same_graph)
  have "playTone h f w = Returned V"
    by (simp add: playTone_catch body sp v)
  then have W: "world_of (playTone h f w) = V"
    by simp
  have "source V = Some (length (nodes w))"
    "nodes V = nodes W3 @ [\<lparr>kind = k, toAnalyser = True, playState = Started\<rparr>]"
    using sg s4 n4 pre(2) by (simp_all add: same_graph_def)
  then show ?thesis
    using pre(2) by (auto simp: W nth_append)
qed

text \<open>
  Claim C1, as the code has it. For every frequency whose parsed value is \<open>NaN\<close> or at most
  0, on a context that can be activated, \<^verbatim>\<open>playTone\<close> throws the invalid-frequency error
  inside its \<^verbatim>\<open>try\<close> block, catches it, reports it with \<^verbatim>\<open>console.error\<close> and
  \<^verbatim>\<open>alert\<close> and returns. No node is created, no connection changes and the visualizer is
  not touched. The check comes after \<^verbatim>\<open>stopTone()\<close>, though: \<^verbatim>\<open>source\<close> is null
  afterwards, and a producer that was playing has been stopped (unless its \<^verbatim>\<open>stop()\<close>
  threw).
\<close>

theorem playTone_invalid_frequency_after_stop:
  assumes "isNaN freq \<or> le_zero freq"
    and "\<not> (ctxState w = Suspended \<and> resumeRejects h)"
  shows "\<exists>w3. playTone_body h freq w = Threw InvalidFrequency w3 \<and>
           playTone h freq w =
             Returned (alert (''Error playing tone: '' @ message InvalidFrequency)
                         (console_error ''Error in playTone:'' InvalidFrequency w3)) \<and>
           source (world_of (playTone h freq w)) = None \<and>
           map kind (nodes (world_of (playTone h freq w))) = map kind (nodes w) \<and>
           map toAnalyser (nodes (world_of (playTone h freq w))) = map toAnalyser (nodes w) \<and>
           same_visual w (world_of (playTone h freq w)) \<and>
           (\<forall>n. source w = Some n \<and> n < length (nodes w) \<and> \<not> stopThrows h \<longrightarrow>
                playState (nodes (world_of (playTone h freq w)) ! n) = Stopped)"
proof -
  define W1 where "W1 = world_of (ensureAudioContextActive h w)"
  define W2 where "W2 = world_of (ensureAnalyserOutput h W1)"
  define W3 where "W3 = world_of (stopTone h W2)"
  note pre = pre_validation_state [OF W1_def W2_def W3_def]
  have body: "playTone_body h freq w = Threw InvalidFrequency W3"
    using assms W1_def W2_def W3_def by (rule playTone_invalid)
  have play: "playTone h freq w =
      Returned (alert (''Error playing tone: '' @ message InvalidFrequency)
                  (console_error ''Error in playTone:'' InvalidFrequency W3))"
    by (simp add: playTone_catch body)
  have "source (world_of (playTone h freq w)) = None"
    "map kind (nodes (world_of (playTone h freq w))) = map kind (nodes w)"
    "map toAnalyser (nodes (world_of (playTone h freq w))) = map toAnalyser (nodes w)"
    "same_visual w (world_of (playTone h freq w))"
    "\<forall>n. source w = Some n \<and> n < length (nodes w) \<and> \<not> stopThrows h \<longrightarrow>
         playState (nodes (world_of (playTone h freq w)) ! n) = Stopped"
    using pre(1-5) pre(6)
    by (simp_all add: play alert_def console_error_def)
  then show ?thesis
    using body play by blast
qed

text \<open>
  At the playing sine tone, with \<open>NaN\<close> as the frequency: the tone is stopped and the
  reference dropped, its connection stays.
\<close>

theorem playTone_invalid_frequency_after_stop_witness:
  "(isNaN NaN \<or> le_zero NaN) \<and>
   \<not> (ctxState tone_playing = Suspended \<and> resumeRejects default_host) \<and>
   source tone_playing = Some 0 \<and>
   source (world_of (playTone default_host NaN tone_playing)) = None \<and>
   map toAnalyser (nodes (world_of (playTone default_host NaN tone_playing))) = [True] \<and>
   playState (nodes (world_of (playTone default_host NaN tone_playing)) ! 0) = Stopped"
proof -
  have h1: "isNaN NaN \<or> le_zero NaN"
    by (simp add: isNaN_def)
  have h2: "\<not> (ctxState tone_playing = Suspended \<and> resumeRejects default_host)"
    by (simp add: tone_playing_eq)
  have s: "source tone_playing = Some 0" "0 < length (nodes tone_playing)"
    "\<not> stopThrows default_host" "map toAnalyser (nodes tone_playing) = [True]"
    by (simp_all add: tone_playing_eq default_host_def)
  show ?thesis
    using playTone_invalid_frequency_after_stop [OF h1 h2] h1 h2 s by auto
qed

text \<open>
  The claim as stated fails there: a sine tone is playing, \<^verbatim>\<open>playTone(NaN)\<close> returns
  without throwing, and afterwards no source is held and the oscillator is stopped. And a
  non-finite frequency is not always refused: with white noise selected,
  \<^verbatim>\<open>playTone(Infinity)\<close> starts the noise player.
\<close>

theorem playTone_invalid_frequency_stops_playing_source:
  "source tone_playing = Some 0 \<and>
   playState (nodes tone_playing ! 0) = Started \<and>
   \<not> propagates (playTone default_host NaN tone_playing) \<and>
   source (world_of (playTone default_host NaN tone_playing)) = None \<and>
   playState (nodes (world_of (playTone default_host NaN tone_playing)) ! 0) = Stopped \<and>
   source (world_of (playTone (default_host\<lparr>noiseTypeInput := Some ''white''\<rparr>) PosInf
     (initial_world Running))) = Some 0"
  by (simp add: tone_playing_eq concrete)

text \<open>
  Claim C2, as the code has it. \<^verbatim>\<open>stopTone\<close> always returns with \<^verbatim>\<open>source\<close> null, and
  a second call does nothing; with no source it does nothing either. Otherwise it calls
  \<^verbatim>\<open>stop()\<close> on the active producer, and an error of that call is reported with
  \<^verbatim>\<open>console.error\<close> and swallowed. It never disconnects: every node keeps its connection
  to the analyser. So for every valid frequency, on a host where the producer can be
  created, connected and started, \<^verbatim>\<open>playTone\<close> followed by \<^verbatim>\<open>stopTone\<close> leaves no source
  held and the new producer still connected to the analyser.
\<close>

theorem stopTone_halts_and_keeps_connection:
  "(\<exists>w'. stopTone h w = Returned w' \<and> source w' = None \<and>
        map toAnalyser (nodes w') = map toAnalyser (nodes w) \<and>
        stopTone h' w' = Returned (emit (Enter StopTone) w') \<and>
        (source w = None \<longrightarrow> w' = emit (Enter StopTone) w) \<and>
        (\<forall>n. source w = Some n \<and> n < length (nodes w) \<and> \<not> stopThrows h \<longrightarrow>
             playState (nodes w' ! n) = Stopped \<and>
             new_events w w' = [Enter StopTone, Stop n]) \<and>
        (\<forall>n. source w = Some n \<and> stopThrows h \<longrightarrow>
             new_events w w' =
               [Enter StopTone, Stop n,
                ConsoleError ''Error stopping tone:'' (HostError ''stop'')])) \<and>
   (\<not> isNaN freq \<and> \<not> le_zero freq \<and>
    waveformInput h0 = Some wv \<and> noiseTypeInput h0 = Some nt \<and>
    (nt = ''none'' \<or> nt = ''white'' \<or> nt = ''pink'') \<and>
    \<not> (ctxState w = Suspended \<and> resumeRejects h0) \<and>
    \<not> createThrows h0 \<and> \<not> connectThrows h0 \<and> \<not> startThrows h0 \<longrightarrow>
      source (world_of (playTone h0 freq w)) = Some (length (nodes w)) \<and>
      source (world_of (stopTone h (world_of (playTone h0 freq w)))) = None \<and>
      toAnalyser (nodes (world_of (stopTone h (world_of (playTone h0 freq w)))) ! length (nodes w)) \<and>
      \<not> no_producer_connected (world_of (stopTone h (world_of (playTone h0 freq w)))))"
proof (intro conjI impI)
  define w' where "w' = world_of (stopTone h w)"
  have ret: "stopTone h w = Returned w'"
    unfolding w'_def by (rule stopTone_returns)
  have idle: "source w' = None" "map toAnalyser (nodes w') = map toAnalyser (nodes w)"
    unfolding w'_def by simp_all
  have again: "stopTone h' w' = Returned (emit (Enter StopTone) w')"
    using idle(1) by (rule stopTone_idle)
  have noop: "source w = None \<longrightarrow> w' = emit (Enter StopTone) w"
    by (simp add: w'_def stopTone_idle)
  have halted: "\<forall>n. source w = Some n \<and> n < length (nodes w) \<and> \<not> stopThrows h \<longrightarrow>
             playState (nodes w' ! n) = Stopped \<and>
             new_events w w' = [Enter StopTone, Stop n]"
    by (simp add: w'_def stopTone_eq upd_node_def new_events_def)
  have logged: "\<forall>n. source w = Some n \<and> stopThrows h \<longrightarrow>
             new_events w w' =
               [Enter StopTone, Stop n,
                ConsoleError ''Error stopping tone:'' (HostError ''stop'')]"
    by (simp add: w'_def stopTone_eq console_error_def new_events_def)
  show "\<exists>w'. stopTone h w = Returned w' \<and> source w' = None \<and>
        map toAnalyser (nodes w') = map toAnalyser (nodes w) \<and>
        stopTone h' w' = Returned (emit (Enter StopTone) w') \<and>
        (source w = None \<longrightarrow> w' = emit (Enter StopTone) w) \<and>
        (\<forall>n. source w = Some n \<and> n < length (nodes w) \<and> \<not> stopThrows h \<longrightarrow>
             playState (nodes w' ! n) = Stopped \<and>
             new_events w w' = [Enter StopTone, Stop n]) \<and>
        (\<forall>n. source w = Some n \<and> stopThrows h \<longrightarrow>
             new_events w w' =
               [Enter StopTone, Stop n,
                ConsoleError ''Error stopping tone:'' (HostError ''stop'')])"
    by (rule exI [of _ w'], intro conjI)
      (rule ret, rule idle(1), rule idle(2), rule again, rule noop, rule halted, rule logged)
next
  assume a: "\<not> isNaN freq \<and> \<not> le_zero freq \<and>
    waveformInput h0 = Some wv \<and> noiseTypeInput h0 = Some nt \<and>
    (nt = ''none'' \<or> nt = ''white'' \<or> nt = ''pink'') \<and>
    \<not> (ctxState w = Suspended \<and> resumeRejects h0) \<and>
    \<not> createThrows h0 \<and> \<not> connectThrows h0 \<and> \<not> startThrows h0"
  define P where "P = world_of (playTone h0 freq w)"
  define S where "S = world_of (stopTone h P)"
  obtain k where p: "source P = Some (length (nodes w))"
    "length (nodes P) = Suc (length (nodes w))"
    "nodes P ! length (nodes w) = \<lparr>kind = k, toAnalyser = True, playState = Started\<rparr>"
    using playTone_starts [of freq h0 wv nt w] a unfolding P_def by blast
  have s: "source S = None" "map toAnalyser (nodes S) = map toAnalyser (nodes P)"
    "length (nodes S) = length (nodes P)"
    unfolding S_def by simp_all
  have "map toAnalyser (nodes S) ! length (nodes w) = map toAnalyser (nodes P) ! length (nodes w)"
    by (simp only: s(2))
  then have conn: "toAnalyser (nodes S ! length (nodes w))"
    using p s(3) by simp
  have "nodes S ! length (nodes w) \<in> set (nodes S)"
    using p(2) s(3) by simp
  then have "\<not> no_producer_connected S"
    using conn by (auto simp: no_producer_connected_def list_all_iff)
  then show "source (world_of (playTone h0 freq w)) = Some (length (nodes w))"
    "source (world_of (stopTone h (world_of (playTone h0 freq w)))) = None"
    "toAnalyser (nodes (world_of (stopTone h (world_of (playTone h0 freq w)))) ! length (nodes w))"
    "\<not> no_producer_connected (world_of (stopTone h (world_of (playTone h0 freq w))))"
    using p(1) s(1) conn unfolding S_def P_def by simp_all
qed

text \<open>At the playing sine tone, and for a tone started from the freshly loaded page.\<close>

theorem stopTone_halts_and_keeps_connection_witness:
  "source tone_playing = Some 0 \<and>
   stopTone default_host tone_playing =
     Returned (world_of (stopTone default_host tone_playing)) \<and>
   source (world_of (stopTone default_host tone_playing)) = None \<and>
   map toAnalyser (nodes (world_of (stopTone default_host tone_playing))) = [True] \<and>
   playState (nodes (world_of (stopTone default_host tone_playing)) ! 0) = Stopped \<and>
   new_events tone_playing (world_of (stopTone default_host tone_playing)) =
     [Enter StopTone, Stop 0] \<and>
   \<not> le_zero (Finite 440) \<and>
   source (world_of (stopTone default_host
     (world_of (playTone default_host (Finite 440) (initial_world Running))))) = None \<and>
   toAnalyser (nodes (world_of (stopTone default_host
     (world_of (playTone default_host (Finite 440) (initial_world Running))))) ! 0)"
proof -
  have s: "source tone_playing = Some 0" "0 < length (nodes tone_playing)"
    "\<not> stopThrows default_host" "map toAnalyser (nodes tone_playing) = [True]"
    by (simp_all add: tone_playing_eq default_host_def)
  have a: "\<not> isNaN (Finite 440) \<and> \<not> le_zero (Finite 440) \<and>
    waveformInput default_host = Some ''sine'' \<and> noiseTypeInput default_host = Some ''none'' \<and>
    (''none'' = ''none'' \<or> ''none'' = ''white'' \<or> ''none'' = ''pink'') \<and>
    \<not> (ctxState (initial_world Running) = Suspended \<and> resumeRejects default_host) \<and>
    \<not> createThrows default_host \<and> \<not> connectThrows default_host \<and> \<not> startThrows default_host"
    by (simp add: isNaN_def le_zero_def default_host_def initial_world_def)
  have n: "length (nodes (initial_world Running)) = 0"
    by (simp add: initial_world_def)
  note inst1 = stopTone_halts_and_keeps_connection
      [where h = default_host and w = tone_playing and ?h' = default_host
        and ?h0.0 = default_host and freq = "Finite 440" and wv = "''sine''" and nt = "''none''"]
  obtain w' where w': "stopTone default_host tone_playing = Returned w'"
    "source w' = None" "map toAnalyser (nodes w') = map toAnalyser (nodes tone_playing)"
    and halted: "\<forall>n. source tone_playing = Some n \<and> n < length (nodes tone_playing) \<and>
           \<not> stopThrows default_host \<longrightarrow>
           playState (nodes w' ! n) = Stopped \<and>
           new_events tone_playing w' = [Enter StopTone, Stop n]"
    using inst1 [THEN conjunct1] by blast
  have wo: "world_of (stopTone default_host tone_playing) = w'"
    by (simp add: w'(1))
  have h0: "playState (nodes w' ! 0) = Stopped \<and>
      new_events tone_playing w' = [Enter StopTone, Stop 0]"
    using halted s(1-3) by blast
  have one: "stopTone default_host tone_playing =
     Returned (world_of (stopTone default_host tone_playing)) \<and>
   source (world_of (stopTone default_host tone_playing)) = None \<and>
   map toAnalyser (nodes (world_of (stopTone default_host tone_playing))) = [True] \<and>
   playState (nodes (world_of (stopTone default_host tone_playing)) ! 0) = Stopped \<and>
   new_events tone_playing (world_of (stopTone default_host tone_playing)) =
     [Enter StopTone, Stop 0]"
    unfolding wo using w' h0 s(4) by simp
  note inst2 = stopTone_halts_and_keeps_connection
      [where h = default_host and w = "initial_world Running" and ?h' = default_host
        and ?h0.0 = default_host and freq = "Finite 440" and wv = "''sine''" and nt = "''none''"]
  have two: "source (world_of (stopTone default_host
     (world_of (playTone default_host (Finite 440) (initial_world Running))))) = None \<and>
   toAnalyser (nodes (world_of (stopTone default_host
     (world_of (playTone default_host (Finite 440) (initial_world Running))))) ! 0)"
    using inst2 [THEN conjunct2, rule_format, OF a] n by simp
  show ?thesis
    using one two s(1) a by blast
qed

text \<open>
  The claim as stated fails at the playing sine tone: after \<^verbatim>\<open>stopTone\<close> no source is
  held, yet a producer is still connected to the analyser.
\<close>

theorem stopTone_leaves_producer_connected:
  "source (world_of (stopTone default_host tone_playing)) = None \<and>
   \<not> no_producer_connected (world_of (stopTone default_host tone_playing))"
  by (simp add: tone_playing_eq no_producer_connected_def concrete)

text \<open>
  Claim C3, as the code has it. \<^verbatim>\<open>playTone\<close> never throws to its caller. Whatever error
  its \<^verbatim>\<open>try\<close> block raises is reported with \<^verbatim>\<open>console.error\<close> and \<^verbatim>\<open>alert\<close>, and the
  call returns; the visualizer has not been touched. When resuming failed, the source and
  the nodes are as before the call; on an invalid frequency or a missing selection no
  source is held, and the nodes and their connections are those from before the call.
\<close>

theorem playTone_reports_errors_and_returns:
  "\<not> propagates (playTone h freq w) \<and>
   (\<forall>e w1. playTone_body h freq w = Threw e w1 \<longrightarrow>
      playTone h freq w =
        Returned (alert (''Error playing tone: '' @ message e)
                    (console_error ''Error in playTone:'' e w1)) \<and>
      same_visual w w1 \<and>
      (e = AudioContextNotResumed \<longrightarrow> source w1 = source w \<and> nodes w1 = nodes w) \<and>
      (e = InvalidFrequency \<or> e = SelectionMissing \<longrightarrow>
         source w1 = None \<and> map kind (nodes w1) = map kind (nodes w) \<and>
         map toAnalyser (nodes w1) = map toAnalyser (nodes w)))"
proof (intro conjI allI impI)
  show "\<not> propagates (playTone h freq w)"
    by (subst playTone_returns) simp
next
  fix e w1
  assume body: "playTone_body h freq w = Threw e w1"
  define W1 where "W1 = world_of (ensureAudioContextActive h w)"
  define W2 where "W2 = world_of (ensureAnalyserOutput h W1)"
  define W3 where "W3 = world_of (stopTone h W2)"
  note pre = pre_validation_state [OF W1_def W2_def W3_def]
  note cases = playTone_body_throws [OF body W1_def W2_def W3_def]
  show "playTone h freq w =
        Returned (alert (''Error playing tone: '' @ message e)
                    (console_error ''Error in playTone:'' e w1))"
    by (simp add: playTone_catch body)
  show "same_visual w w1"
    using cases
  proof (elim disjE exE conjE)
    fix m a b
    assume "startProducer h a b freq W3 = Threw e w1"
    then have "same_visual W3 w1"
      using startProducer_frame(1) [of W3 h a b freq] by simp
    with pre(5) show ?thesis
      by (rule same_visual_trans)
  qed (simp_all add: pre)
  {
    assume "e = AudioContextNotResumed"
    then have "w1 = W1"
      using cases by auto
    then show "source w1 = source w" "nodes w1 = nodes w"
      by (simp_all add: pre)
  }
  {
    assume "e = InvalidFrequency \<or> e = SelectionMissing"
    then have "w1 = W3"
      using cases by auto
    then show "source w1 = None" "map kind (nodes w1) = map kind (nodes w)"
      "map toAnalyser (nodes w1) = map toAnalyser (nodes w)"
      by (simp_all add: pre)
  }
qed

text \<open>On a suspended context whose resume the host rejects.\<close>

theorem playTone_reports_errors_and_returns_witness:
  "playTone_body blocking_host (Finite 440) (initial_world Suspended) =
     Threw AudioContextNotResumed
       (world_of (playTone_body blocking_host (Finite 440) (initial_world Suspended))) \<and>
   playTone blocking_host (Finite 440) (initial_world Suspended) =
     Returned (alert (''Error playing tone: '' @ message AudioContextNotResumed)
                 (console_error ''Error in playTone:'' AudioContextNotResumed
                    (world_of (playTone_body blocking_host (Finite 440) (initial_world Suspended))))) \<and>
   source (world_of (playTone_body blocking_host (Finite 440) (initial_world Suspended))) = None \<and>
   nodes (world_of (playTone_body blocking_host (Finite 440) (initial_world Suspended))) = [] \<and>
   frames (world_of (playTone_body blocking_host (Finite 440) (initial_world Suspended))) = []"
proof -
  have body: "playTone_body blocking_host (Finite 440) (initial_world Suspended) =
     Threw AudioContextNotResumed
       (world_of (playTone_body blocking_host (Finite 440) (initial_world Suspended)))"
    by (simp add: concrete)
  have init: "source (initial_world Suspended) = None" "nodes (initial_world Suspended) = []"
    "frames (initial_world Suspended) = []"
    by (simp_all add: initial_world_def)
  note inst = playTone_reports_errors_and_returns
      [of blocking_host "Finite 440" "initial_world Suspended", THEN conjunct2, rule_format,
        OF body]
  have play: "playTone blocking_host (Finite 440) (initial_world Suspended) =
     Returned (alert (''Error playing tone: '' @ message AudioContextNotResumed)
                 (console_error ''Error in playTone:'' AudioContextNotResumed
                    (world_of (playTone_body blocking_host (Finite 440) (initial_world Suspended)))))"
    using inst by (rule conjunct1)
  have vis: "same_visual (initial_world Suspended)
      (world_of (playTone_body blocking_host (Finite 440) (initial_world Suspended)))"
    using inst by blast
  have same: "source (world_of (playTone_body blocking_host (Finite 440) (initial_world Suspended))) =
        source (initial_world Suspended) \<and>
      nodes (world_of (playTone_body blocking_host (Finite 440) (initial_world Suspended))) =
        nodes (initial_world Suspended)"
    using inst by blast
  have fr: "frames (world_of (playTone_body blocking_host (Finite 440) (initial_world Suspended))) = []"
    using vis init(3) by (simp add: same_visual_def)
  have src: "source (world_of (playTone_body blocking_host (Finite 440) (initial_world Suspended))) = None"
    using same init(1) by simp
  have nds: "nodes (world_of (playTone_body blocking_host (Finite 440) (initial_world Suspended))) = []"
    using same init(2) by simp
  show ?thesis
    by (intro conjI) (rule body, rule play, rule src, rule nds, rule fr)
qed

text \<open>
  The claim as stated fails there: the \<^verbatim>\<open>try\<close> block throws, \<^verbatim>\<open>playTone\<close> itself does
  not.
\<close>

theorem playTone_swallows_resume_failure:
  "propagates (playTone_body blocking_host (Finite 440) (initial_world Suspended)) \<and>
   \<not> propagates (playTone blocking_host (Finite 440) (initial_world Suspended))"
  by (simp add: concrete)

section \<open>The claims about the engine, the media element and the frame loop\<close>

text \<open>
  Claim C4. In the events \<^verbatim>\<open>playTone\<close> and \<^verbatim>\<open>setupAudioNodes\<close> add to the trace, every
  call that creates a producer or connects one to the analyser comes after the entry of
  \<^verbatim>\<open>ensureAudioContextActive\<close> and, after that, the entry of
  \<^verbatim>\<open>ensureAnalyserOutput\<close>, whatever the inputs and the host do. (The last two conjuncts
  show two orders the reading refuses.)
\<close>

theorem ensure_calls_precede_producers:
  "ensured 0 (new_events w (world_of (playTone h freq w))) \<and>
   ensured 0 (new_events w (world_of (setupAudioNodes h w))) \<and>
   \<not> ensured 0 [Enter EnsureAnalyserOutput, Enter EnsureAudioContextActive, CreateOscillator] \<and>
   \<not> ensured 0 [Enter EnsureAudioContextActive, Connect 0, Enter EnsureAnalyserOutput]"
  by (simp add: playTone_ensured setupAudioNodes_ensured is_producer_event_def)






text \<open>
  Claim C9, where the code departs from it. On a closed context \<^verbatim>\<open>ensureAnalyserOutput\<close>
  throws inside its own \<^verbatim>\<open>try\<close>, catches the error, reports it and returns normally:
  nothing reaches the caller. \<^verbatim>\<open>playTone\<close> on a closed context therefore goes on to
  create, connect and start the oscillator.
\<close>

theorem ensureAnalyserOutput_closed_does_not_throw:
  "ensureAnalyserOutput h (w\<lparr>ctxState := Closed\<rparr>) =
     Returned
       (alert (''Error connecting analyser to output: '' @ message AnalyserInvalidOrClosed)
          (console_error ''Error ensuring analyser output:'' AnalyserInvalidOrClosed
             (emit (Enter EnsureAnalyserOutput) (w\<lparr>ctxState := Closed\<rparr>)))) \<and>
   \<not> propagates (ensureAnalyserOutput h (w\<lparr>ctxState := Closed\<rparr>)) \<and>
   source (world_of (playTone default_host (Finite 440) (initial_world Closed))) = Some 0 \<and>
   Connect 0 \<in> set (trace (world_of (playTone default_host (Finite 440) (initial_world Closed))))"
proof -
  have a: "ensureAnalyserOutput h (w\<lparr>ctxState := Closed\<rparr>) =
     Returned
       (alert (''Error connecting analyser to output: '' @ message AnalyserInvalidOrClosed)
          (console_error ''Error ensuring analyser output:'' AnalyserInvalidOrClosed
             (emit (Enter EnsureAnalyserOutput) (w\<lparr>ctxState := Closed\<rparr>))))"
    by (simp add: ensureAnalyserOutput_eq)
  have b: "playTone default_host (Finite 440) (initial_world Closed) =
     Returned
       \<lparr>ctxState = Closed,
        analyser = Some \<lparr>fftSize = 2048, toDestination = True\<rparr>,
        nodes = [\<lparr>kind = Oscillator ''sine'' (Finite 440), toAnalyser = True,
                  playState = Started\<rparr>],
        source = Some 0, mp3Source = None, mediaElementSourceCreated = False,
        playerSrc = [], playerPlaying = False, playerCurrentTime = 0,
        currentVisualizerAnimation = Some 1, visualizerType = ''bar'',
        frames = [(1, Bar)], frameCounter = 1,
        trace =
          [Enter EnsureAudioContextActive, Enter EnsureAnalyserOutput,
           ConsoleError ''Error ensuring analyser output:'' AnalyserInvalidOrClosed,
           Alert ''Error connecting analyser to output: Analyser node is invalid or closed.'',
           Enter StopTone, CreateOscillator, Connect 0, Start 0,
           Enter Visualize, RequestFrame 1, Render Bar]\<rparr>"
    by (simp add: concrete)
  show ?thesis
    by (simp add: a b)
qed

text \<open>
  Claim C10. \<^verbatim>\<open>stopMp3\<close> on a bound media source leaves the flag set and the reference
  null. In every such world with a loaded source, \<^verbatim>\<open>setupAudioNodes\<close> returns without
  throwing, adds no producer event and no \<^verbatim>\<open>play()\<close> to the trace, and leaves nodes,
  player, binding and visualizer as they were; when the context can be activated its
  \<^verbatim>\<open>try\<close> block completes, the last thing it does being the warning that the source is
  null.
\<close>

theorem setupAudioNodes_returns_early_when_source_null:
  "(mediaElementSourceCreated w0 \<and> mp3Source w0 = Some n \<longrightarrow>
      mediaElementSourceCreated (world_of (stopMp3 h0 w0)) \<and>
      mp3Source (world_of (stopMp3 h0 w0)) = None \<and>
      playerSrc (world_of (stopMp3 h0 w0)) = playerSrc w0) \<and>
   (mediaElementSourceCreated w \<and> mp3Source w = None \<and> playerSrc w \<noteq> [] \<longrightarrow>
      \<not> propagates (setupAudioNodes h w) \<and>
      quiet w (world_of (setupAudioNodes h w)) \<and>
      Play \<notin> set (new_events w (world_of (setupAudioNodes h w))) \<and>
      nodes (world_of (setupAudioNodes h w)) = nodes w \<and>
      playerPlaying (world_of (setupAudioNodes h w)) = playerPlaying w \<and>
      mp3Source (world_of (setupAudioNodes h w)) = None \<and>
      mediaElementSourceCreated (world_of (setupAudioNodes h w)) \<and>
      same_visual w (world_of (setupAudioNodes h w)) \<and>
      (\<not> (ctxState w = Suspended \<and> resumeRejects h) \<longrightarrow>
         \<not> propagates (setupAudioNodes_body h w) \<and>
         last (trace (world_of (setupAudioNodes h w))) =
           ConsoleText ''MediaElementSource was created but is null''))"
proof (intro conjI impI)
  assume "mediaElementSourceCreated w0 \<and> mp3Source w0 = Some n"
  then show "mediaElementSourceCreated (world_of (stopMp3 h0 w0))"
    "mp3Source (world_of (stopMp3 h0 w0)) = None"
    "playerSrc (world_of (stopMp3 h0 w0)) = playerSrc w0"
    by simp_all
next
  assume a: "mediaElementSourceCreated w \<and> mp3Source w = None \<and> playerSrc w \<noteq> []"
  then have a1: "mediaElementSourceCreated w" and a2: "mp3Source w = None"
    and a3: "playerSrc w \<noteq> []"
    by simp_all
  note l = setupAudioNodes_null_source [OF a1 a2 a3, of h]
  show "\<not> propagates (setupAudioNodes h w)"
    "quiet w (world_of (setupAudioNodes h w))"
    "Play \<notin> set (new_events w (world_of (setupAudioNodes h w)))"
    "nodes (world_of (setupAudioNodes h w)) = nodes w"
    "playerPlaying (world_of (setupAudioNodes h w)) = playerPlaying w"
    "mp3Source (world_of (setupAudioNodes h w)) = None"
    "mediaElementSourceCreated (world_of (setupAudioNodes h w))"
    "same_visual w (world_of (setupAudioNodes h w))"
    using l by blast+
  {
    assume "\<not> (ctxState w = Suspended \<and> resumeRejects h)"
    then show "\<not> propagates (setupAudioNodes_body h w)"
      "last (trace (world_of (setupAudioNodes h w))) =
           ConsoleText ''MediaElementSource was created but is null''"
      using l by blast+
  }
qed

text \<open>At the page where an upload was playing and "Stop MP3" was clicked.\<close>

theorem setupAudioNodes_returns_early_when_source_null_witness:
  "mediaElementSourceCreated media_playing \<and>
   mp3Source media_playing = Some 0 \<and>
   mediaElementSourceCreated media_stopped \<and>
   mp3Source media_stopped = None \<and>
   playerSrc media_stopped = ''blob:a'' \<and>
   \<not> propagates (setupAudioNodes default_host media_stopped) \<and>
   \<not> propagates (setupAudioNodes_body default_host media_stopped) \<and>
   nodes (world_of (setupAudioNodes default_host media_stopped)) = nodes media_stopped \<and>
   Play \<notin> set (new_events media_stopped (world_of (setupAudioNodes default_host media_stopped))) \<and>
   playerPlaying (world_of (setupAudioNodes default_host media_stopped)) = False \<and>
   last (trace (world_of (setupAudioNodes default_host media_stopped))) =
     ConsoleText ''MediaElementSource was created but is null''"
proof -
  have p: "mediaElementSourceCreated media_playing \<and> mp3Source media_playing = Some 0"
    "playerSrc media_playing = ''blob:a''" "0 < length (nodes media_playing)"
    by (simp_all add: media_playing_eq)
  note inst = setupAudioNodes_returns_early_when_source_null
      [where ?w0.0 = media_playing and n = 0 and ?h0.0 = default_host
        and w = media_stopped and h = default_host]
  have s: "mediaElementSourceCreated media_stopped" "mp3Source media_stopped = None"
    "playerSrc media_stopped = playerSrc media_playing"
    using inst [THEN conjunct1, rule_format, OF p(1)] unfolding media_stopped_def by blast+
  have src: "playerSrc media_stopped = ''blob:a''"
    using s(3) p(2) by simp
  have pl: "playerPlaying media_stopped = False"
    using stopMp3_disconnects [of media_playing 0 default_host] p
    by (simp add: media_stopped_def default_host_def)
  have hyp: "mediaElementSourceCreated media_stopped \<and> mp3Source media_stopped = None \<and>
      playerSrc media_stopped \<noteq> []"
    using s(1,2) src by simp
  have nr: "\<not> (ctxState media_stopped = Suspended \<and> resumeRejects default_host)"
    by (simp add: default_host_def)
  note c = inst [THEN conjunct2, rule_format, OF hyp]
  have c1: "\<not> propagates (setupAudioNodes default_host media_stopped)"
    "nodes (world_of (setupAudioNodes default_host media_stopped)) = nodes media_stopped"
    "Play \<notin> set (new_events media_stopped (world_of (setupAudioNodes default_host media_stopped)))"
    "playerPlaying (world_of (setupAudioNodes default_host media_stopped)) =
       playerPlaying media_stopped"
    using c by blast+
  have c2: "\<not> propagates (setupAudioNodes_body default_host media_stopped)"
    "last (trace (world_of (setupAudioNodes default_host media_stopped))) =
       ConsoleText ''MediaElementSource was created but is null''"
    using c nr by blast+
  show ?thesis
    using p(1) s(1,2) src c1 c2 pl by simp
qed

end
